theory Spec2Isabelle
  imports Main
begin

section \<open>Python values used by the pipeline\<close>

text \<open>
  What \<^verbatim>\<open>json.loads\<close> can return. Numbers are integers here: a float is truthy
  exactly when it is not zero and is no string either, so it takes the branches of
  \<open>JInt\<close> everywhere below. A JSON object is an association list in the order of the
  text; Python keeps the last value of a repeated key.
\<close>

datatype json =
    JNull
  | JBool bool
  | JInt int
  | JStr string
  | JArr "json list"
  | JObj "(string \<times> json) list"

text \<open>Python truthiness (\<^verbatim>\<open>bool(x)\<close>, \<^verbatim>\<open>x or y\<close>, \<^verbatim>\<open>if not x\<close>).\<close>

fun truthy :: "json \<Rightarrow> bool" where
  "truthy JNull = False"
| "truthy (JBool b) = b"
| "truthy (JInt n) = (n \<noteq> 0)"
| "truthy (JStr s) = (s \<noteq> [])"
| "truthy (JArr xs) = (xs \<noteq> [])"
| "truthy (JObj kvs) = (kvs \<noteq> [])"

text \<open>\<^verbatim>\<open>d.get(key)\<close> on a parsed object: the last binding of the key, if any.\<close>

definition dict_get :: "(string \<times> json) list \<Rightarrow> string \<Rightarrow> json option" where
  "dict_get kvs k = map_of (rev kvs) k"

text \<open>
  \<^verbatim>\<open>str.strip()\<close>: the characters Python's \<^verbatim>\<open>str.isspace\<close> accepts below
  code point 256 are removed from both ends.
\<close>

definition is_space :: "char \<Rightarrow> bool" where
  "is_space c =
     (c = CHR 0x09 \<or> c = CHR 0x0A \<or> c = CHR 0x0B \<or> c = CHR 0x0C \<or> c = CHR 0x0D \<or>
      c = CHR 0x1C \<or> c = CHR 0x1D \<or> c = CHR 0x1E \<or> c = CHR 0x1F \<or> c = CHR 0x20 \<or>
      c = CHR 0x85 \<or> c = CHR 0xA0)"

definition strip :: "string \<Rightarrow> string" where
  "strip s = rev (dropWhile is_space (rev (dropWhile is_space s)))"

text \<open>The slice \<^verbatim>\<open>xs[-n:]\<close> for a positive \<open>n\<close>: the last \<open>n\<close> elements, all
  of them when there are fewer.\<close>

definition last_slice :: "nat \<Rightarrow> 'a list \<Rightarrow> 'a list" where
  "last_slice n xs = drop (length xs - n) xs"

section \<open>Exceptions\<close>

text \<open>
  The exceptions that can travel through the pipeline: psycopg2's
  \<^verbatim>\<open>OperationalError\<close> of a failed connect (with its text), whatever
  \<^verbatim>\<open>llm.invoke\<close> raises (with its text), Python's \<^verbatim>\<open>AttributeError\<close>,
  LangGraph's recursion limit, and FastAPI's \<^verbatim>\<open>HTTPException(status_code, detail)\<close>.
  A detail is a literal of the source or \<^verbatim>\<open>str(e)\<close> of a caught exception.
\<close>

datatype exn =
    OperationalError string
  | LLMError string
  | AttributeError string
  | GraphRecursionError
  | HTTPException nat detail
and detail =
    Literal string
  | Str exn

section \<open>The database (database.py)\<close>

text \<open>
  The three tables of \<^verbatim>\<open>initialize_database\<close>, each a list of rows in insertion
  order. \<^verbatim>\<open>users.user_id\<close> is the primary key, \<^verbatim>\<open>professions\<close> is unique on
  (user_id, profession_name), and both other tables reference \<^verbatim>\<open>users\<close> with
  ON DELETE CASCADE. Serial ids and the timestamp defaults are left out: insertion
  order stands for the order of the \<^verbatim>\<open>CURRENT_TIMESTAMP\<close> defaults that
  \<^verbatim>\<open>ORDER BY timestamp ASC\<close> reads. The columns \<^verbatim>\<open>user_id\<close>,
  \<^verbatim>\<open>persona_name\<close> and \<^verbatim>\<open>profession_name\<close> are \<^verbatim>\<open>VARCHAR(255)\<close> and
  \<^verbatim>\<open>role\<close> is \<^verbatim>\<open>VARCHAR(50)\<close>; what an insert stores in such a column is
  \<open>varchar\<close> below. The columns \<^verbatim>\<open>message\<close> and \<^verbatim>\<open>prompt\<close> are
  \<^verbatim>\<open>TEXT\<close>. A comparison in a \<^verbatim>\<open>WHERE\<close> clause has no such limit.

  \<open>connect_error\<close> is what \<^verbatim>\<open>psycopg2.connect\<close> does while the request runs:
  \<open>None\<close> when it connects, \<open>Some msg\<close> when it raises \<^verbatim>\<open>OperationalError(msg)\<close>.
  \<open>llm_calls\<close> records every \<^verbatim>\<open>llm.invoke\<close>, oldest first.

  \<^verbatim>\<open>create_user\<close>, \<^verbatim>\<open>save_profession_prompt\<close> and \<^verbatim>\<open>save_message\<close> catch
  every exception and answer \<open>False\<close>, and backend.py drops that answer, so such a
  write can fail inside a request that goes on. \<open>write_faults\<close> lists the writes that
  raise for a reason the tables do not show: the connection is lost between two calls, the
  statement times out, the text holds a character PostgreSQL cannot store. A write that is
  listed stores nothing.
\<close>

record conversation =
  conv_user_id :: string
  conv_persona_name :: string
  conv_role :: string
  conv_message :: string

record profession =
  prof_user_id :: string
  prof_profession_name :: string
  prof_prompt :: string

datatype chat_message = SystemMessage string | HumanMessage string | AIMessage string

datatype llm_call =
    Classify string string
  | Synthesize string
  | Generate "chat_message list"

datatype db_write =
    CreateUser string
  | SaveProfessionPrompt string string string
  | SaveMessage string string string string

record world =
  users :: "string list"
  conversations :: "conversation list"
  professions :: "profession list"
  connect_error :: "string option"
  llm_calls :: "llm_call list"
  write_faults :: "db_write list"

text \<open>One row of a thread as \<^verbatim>\<open>get_persona_history\<close> returns it.\<close>

record turn =
  turn_role :: string
  turn_message :: string

definition user_exists :: "world \<Rightarrow> string \<Rightarrow> exn + bool" where
  "user_exists w uid =
     (case connect_error w of
        Some m \<Rightarrow> Inl (OperationalError m)
      | None \<Rightarrow> Inr (uid \<in> set (users w)))"

text \<open>
  A value stored into a column \<^verbatim>\<open>VARCHAR(n)\<close>: a value of at most \<open>n\<close>
  characters is stored as it is; PostgreSQL refuses a longer one (the result \<open>None\<close>),
  unless all the characters in excess are spaces, and then stores the first \<open>n\<close>.
\<close>

definition varchar :: "nat \<Rightarrow> string \<Rightarrow> string option" where
  "varchar n s =
     (if length s \<le> n then Some s
      else if list_all (\<lambda>c. c = CHR '' '') (drop n s) then Some (take n s)
      else None)"

text \<open>\<^verbatim>\<open>create_user\<close> swallows every exception and answers \<open>False\<close>: the failed
  connect, a fault of the write, the error of a key the column refuses, and the
  IntegrityError of a second insert of the same key.\<close>

definition create_user :: "world \<Rightarrow> string \<Rightarrow> bool \<times> world" where
  "create_user w uid =
     (case connect_error w of
        Some m \<Rightarrow> (False, w)
      | None \<Rightarrow>
          if CreateUser uid \<in> set (write_faults w) then (False, w)
          else
            (case varchar 255 uid of
               None \<Rightarrow> (False, w)
             | Some key \<Rightarrow>
                 if key \<in> set (users w) then (False, w)
                 else (True, w\<lparr>users := users w @ [key]\<rparr>)))"

definition in_thread :: "string \<Rightarrow> string \<Rightarrow> conversation \<Rightarrow> bool" where
  "in_thread uid persona r = (conv_user_id r = uid \<and> conv_persona_name r = persona)"

definition get_user_personas :: "world \<Rightarrow> string \<Rightarrow> exn + string set" where
  "get_user_personas w uid =
     (case connect_error w of
        Some m \<Rightarrow> Inl (OperationalError m)
      | None \<Rightarrow>
          Inr (set (map conv_persona_name
                 (filter (\<lambda>r. conv_user_id r = uid) (conversations w)))))"

definition as_turn :: "conversation \<Rightarrow> turn" where
  "as_turn r = \<lparr>turn_role = conv_role r, turn_message = conv_message r\<rparr>"

definition get_persona_history :: "world \<Rightarrow> string \<Rightarrow> string \<Rightarrow> exn + turn list" where
  "get_persona_history w uid persona =
     (case connect_error w of
        Some m \<Rightarrow> Inl (OperationalError m)
      | None \<Rightarrow> Inr (map as_turn (filter (in_thread uid persona) (conversations w))))"

definition has_profile :: "string \<Rightarrow> string \<Rightarrow> profession \<Rightarrow> bool" where
  "has_profile uid name r = (prof_user_id r = uid \<and> prof_profession_name r = name)"

definition get_profession_prompt :: "world \<Rightarrow> string \<Rightarrow> string \<Rightarrow> exn + string option" where
  "get_profession_prompt w uid name =
     (case connect_error w of
        Some m \<Rightarrow> Inl (OperationalError m)
      | None \<Rightarrow>
          (case filter (has_profile uid name) (professions w) of
             [] \<Rightarrow> Inr None
           | r # _ \<Rightarrow> Inr (Some (prof_prompt r))))"

text \<open>
  \<^verbatim>\<open>INSERT ... ON CONFLICT (user_id, profession_name) DO UPDATE SET prompt =
  EXCLUDED.prompt\<close>: a row of the pair takes the new prompt, otherwise the row is
  added. The insert of a user that is not in \<^verbatim>\<open>users\<close> violates the foreign key and
  a key or a name that its column refuses is an error; like every exception, and like a
  fault of the write, this is swallowed and answered with \<open>False\<close>.
\<close>

definition upsert_prompt :: "string \<Rightarrow> string \<Rightarrow> string \<Rightarrow> profession list \<Rightarrow> profession list" where
  "upsert_prompt uid name prompt rows =
     (if filter (has_profile uid name) rows = []
      then rows @ [\<lparr>prof_user_id = uid, prof_profession_name = name, prof_prompt = prompt\<rparr>]
      else map (\<lambda>r. if has_profile uid name r then r\<lparr>prof_prompt := prompt\<rparr> else r) rows)"

definition save_profession_prompt :: "world \<Rightarrow> string \<Rightarrow> string \<Rightarrow> string \<Rightarrow> bool \<times> world" where
  "save_profession_prompt w uid name prompt =
     (case connect_error w of
        Some m \<Rightarrow> (False, w)
      | None \<Rightarrow>
          if SaveProfessionPrompt uid name prompt \<in> set (write_faults w) then (False, w)
          else
            (case varchar 255 uid of
               None \<Rightarrow> (False, w)
             | Some key \<Rightarrow>
                 (case varchar 255 name of
                    None \<Rightarrow> (False, w)
                  | Some label \<Rightarrow>
                      if key \<in> set (users w)
                      then (True, w\<lparr>professions :=
                                     upsert_prompt key label prompt (professions w)\<rparr>)
                      else (False, w))))"

text \<open>\<^verbatim>\<open>get_all_chat_history\<close>: the dict from persona name to its rows; a name
  without rows is no key of it.\<close>

definition get_all_chat_history :: "world \<Rightarrow> string \<Rightarrow> exn + (string \<Rightarrow> turn list option)" where
  "get_all_chat_history w uid =
     (case connect_error w of
        Some m \<Rightarrow> Inl (OperationalError m)
      | None \<Rightarrow>
          Inr (\<lambda>persona.
            (case filter (in_thread uid persona) (conversations w) of
               [] \<Rightarrow> None
             | r # rs \<Rightarrow> Some (map as_turn (r # rs)))))"

text \<open>\<^verbatim>\<open>save_message\<close>: the insert of one row. It fails, swallowed and answered
  with \<open>False\<close>, on a failed connect, on a fault of the write, on a value that its
  column refuses and on a user that is not in \<^verbatim>\<open>users\<close> (the foreign key).\<close>

definition save_message :: "world \<Rightarrow> string \<Rightarrow> string \<Rightarrow> string \<Rightarrow> string \<Rightarrow> bool \<times> world" where
  "save_message w uid persona role_name text =
     (case connect_error w of
        Some m \<Rightarrow> (False, w)
      | None \<Rightarrow>
          if SaveMessage uid persona role_name text \<in> set (write_faults w) then (False, w)
          else
            (case varchar 255 uid of
               None \<Rightarrow> (False, w)
             | Some key \<Rightarrow>
                 (case varchar 255 persona of
                    None \<Rightarrow> (False, w)
                  | Some label \<Rightarrow>
                      (case varchar 50 role_name of
                         None \<Rightarrow> (False, w)
                       | Some stored_role \<Rightarrow>
                           if key \<in> set (users w)
                           then (True, w\<lparr>conversations := conversations w @
                                   [\<lparr>conv_user_id = key, conv_persona_name = label,
                                     conv_role = stored_role, conv_message = text\<rparr>]\<rparr>)
                           else (False, w)))))"

definition persona_exists_for_user :: "world \<Rightarrow> string \<Rightarrow> string \<Rightarrow> exn + bool" where
  "persona_exists_for_user w uid persona =
     (case connect_error w of
        Some m \<Rightarrow> Inl (OperationalError m)
      | None \<Rightarrow> Inr (filter (in_thread uid persona) (conversations w) \<noteq> []))"

text \<open>\<^verbatim>\<open>DELETE FROM users WHERE user_id = %s\<close>, with the cascade of both
  foreign keys. Deleting no row is no error.\<close>

definition delete_user_data :: "world \<Rightarrow> string \<Rightarrow> bool \<times> world" where
  "delete_user_data w uid =
     (case connect_error w of
        Some m \<Rightarrow> (False, w)
      | None \<Rightarrow>
          (True, w\<lparr>users := filter (\<lambda>u. u \<noteq> uid) (users w),
                   conversations := filter (\<lambda>r. conv_user_id r \<noteq> uid) (conversations w),
                   professions := filter (\<lambda>r. prof_user_id r \<noteq> uid) (professions w)\<rparr>))"

section \<open>The language model (backend.py)\<close>

text \<open>
  \<^verbatim>\<open>llm.invoke\<close> either raises (with the text of the exception) or returns. The
  three call sites are three oracles: the classifier of
  \<^verbatim>\<open>detect_profession_from_message\<close>, whose content is kept as
  \<^verbatim>\<open>json.loads\<close> reads it (\<open>None\<close> when \<^verbatim>\<open>json.loads\<close> raises), the prompt
  writer of \<^verbatim>\<open>generate_profession_prompt_with_llm\<close> and the chat model of
  \<^verbatim>\<open>execute_chat\<close>, whose content is a string.
\<close>

datatype 'a reply = Raises string | Returns 'a

record oracles =
  classifier :: "string \<Rightarrow> string \<Rightarrow> json option reply"
  prompt_writer :: "string \<Rightarrow> string reply"
  chat_model :: "chat_message list \<Rightarrow> string reply"

definition invoked :: "llm_call \<Rightarrow> world \<Rightarrow> world" where
  "invoked c w = w\<lparr>llm_calls := llm_calls w @ [c]\<rparr>"

section \<open>The state of the graph and the API models\<close>

text \<open>
  \<^verbatim>\<open>ChatState\<close> with the keys \<^verbatim>\<open>chat\<close> always sets as plain fields and the
  two keys it leaves out (\<^verbatim>\<open>profession_name\<close>, \<^verbatim>\<open>profession_prompt\<close>) as
  options. The key \<^verbatim>\<open>user_exists\<close> is the field \<open>st_user_exists\<close>.
\<close>

record chat_state =
  user_id :: string
  message :: string
  current_persona :: string
  conversation_history :: "turn list"
  response :: string
  st_user_exists :: bool
  persona_detected :: string
  action :: string
  profession_name :: "string option"
  profession_prompt :: "string option"

text \<open>\<^verbatim>\<open>ChatRequest.persona_name\<close> has a default, so a request may leave it out.\<close>

record chat_request =
  req_user_id :: string
  req_message :: string
  req_persona_name :: "string option"

record chat_response =
  resp_response :: string
  resp_persona_name :: string
  resp_user_id :: string

section \<open>The four nodes\<close>

definition initialize_chat :: "chat_state \<Rightarrow> chat_state" where
  "initialize_chat s =
     (let s1 = (if current_persona s = [] then s\<lparr>current_persona := ''general_expert''\<rparr> else s)
      in s1\<lparr>action := ''validate_user''\<rparr>)"

definition validate_user :: "world \<Rightarrow> chat_state \<Rightarrow> (exn + chat_state) \<times> world" where
  "validate_user w s =
     (case user_exists w (user_id s) of
        Inl e \<Rightarrow> (Inl e, w)
      | Inr ex \<Rightarrow>
          (let s1 = s\<lparr>st_user_exists := ex\<rparr> in
           if \<not> ex
           then (let (created, w1) = create_user w (user_id s)
                 in (Inr (s1\<lparr>conversation_history := [], action := ''handle_persona''\<rparr>), w1))
           else (Inr (s1\<lparr>action := ''handle_persona''\<rparr>), w)))"

text \<open>
  \<^verbatim>\<open>detect_profession_from_message\<close>. The call of the model stands before the
  \<^verbatim>\<open>try\<close>, which covers \<^verbatim>\<open>json.loads\<close> only; \<^verbatim>\<open>data.get\<close> on a value that
  is no dict and \<^verbatim>\<open>.strip()\<close> on a truthy value that is no string raise
  \<^verbatim>\<open>AttributeError\<close> after it.
\<close>

definition detect_profession_from_message ::
    "oracles \<Rightarrow> world \<Rightarrow> string \<Rightarrow> string \<Rightarrow> (exn + bool \<times> string) \<times> world" where
  "detect_profession_from_message env w msg current_profession =
     (let w1 = invoked (Classify msg current_profession) w in
      case classifier env msg current_profession of
        Raises m \<Rightarrow> (Inl (LLMError m), w1)
      | Returns None \<Rightarrow> (Inr (False, current_profession), w1)
      | Returns (Some (JObj data)) \<Rightarrow>
          (let should_switch =
                 (case dict_get data ''should_switch'' of None \<Rightarrow> False | Some v \<Rightarrow> truthy v);
               named =
                 (case dict_get data ''profession_name'' of
                    None \<Rightarrow> JStr []
                  | Some v \<Rightarrow> if truthy v then v else JStr [])
           in case named of
                JStr raw \<Rightarrow>
                  (let name = strip raw
                   in (Inr (should_switch, if name = [] then current_profession else name), w1))
              | _ \<Rightarrow> (Inl (AttributeError ''strip''), w1))
      | Returns (Some _) \<Rightarrow> (Inl (AttributeError ''get''), w1))"

definition handle_persona :: "oracles \<Rightarrow> world \<Rightarrow> chat_state \<Rightarrow> (exn + chat_state) \<times> world" where
  "handle_persona env w s =
     (let current_profession =
            (if current_persona s = [] then ''general_expert'' else current_persona s)
      in case detect_profession_from_message env w (message s) current_profession of
           (Inl e, w1) \<Rightarrow> (Inl e, w1)
         | (Inr (should_switch, detected), w1) \<Rightarrow>
             (let name = (if detected = [] then current_profession else detected);
                  s1 = s\<lparr>persona_detected := name, current_persona := name,
                         profession_name := Some name\<rparr>
              in case persona_exists_for_user w1 (user_id s) name of
                   Inl e \<Rightarrow> (Inl e, w1)
                 | Inr True \<Rightarrow>
                     (case get_persona_history w1 (user_id s) name of
                        Inl e \<Rightarrow> (Inl e, w1)
                      | Inr history \<Rightarrow>
                          (Inr (s1\<lparr>conversation_history := history,
                                    action := ''execute_chat''\<rparr>), w1))
                 | Inr False \<Rightarrow>
                     (Inr (s1\<lparr>conversation_history := [], action := ''execute_chat''\<rparr>), w1)))"

definition fallback_prompt :: "string \<Rightarrow> string" where
  "fallback_prompt name =
     ''You are an AI assistant acting as a professional '' @ name @ ''. '' @
     ''Answer as a knowledgeable, helpful '' @ name @ '', using the tone, priorities, '' @
     ''and expertise that such a professional would use.''"

definition generate_profession_prompt_with_llm ::
    "oracles \<Rightarrow> world \<Rightarrow> string \<Rightarrow> (exn + string) \<times> world" where
  "generate_profession_prompt_with_llm env w name =
     (let w1 = invoked (Synthesize name) w in
      case prompt_writer env name of
        Raises m \<Rightarrow> (Inl (LLMError m), w1)
      | Returns raw_content \<Rightarrow>
          (let prompt = strip raw_content
           in (Inr (if prompt = [] then fallback_prompt name else prompt), w1)))"

definition get_or_create_profession_prompt ::
    "oracles \<Rightarrow> world \<Rightarrow> string \<Rightarrow> string \<Rightarrow> (exn + string) \<times> world" where
  "get_or_create_profession_prompt env w uid name =
     (case get_profession_prompt w uid name of
        Inl e \<Rightarrow> (Inl e, w)
      | Inr existing \<Rightarrow>
          (case (case existing of None \<Rightarrow> [] | Some p \<Rightarrow> p) of
             c # cs \<Rightarrow> (Inr (c # cs), w)
           | [] \<Rightarrow>
               (case generate_profession_prompt_with_llm env w name of
                  (Inl e, w1) \<Rightarrow> (Inl e, w1)
                | (Inr prompt, w1) \<Rightarrow>
                    (let (saved, w2) = save_profession_prompt w1 uid name prompt
                     in (Inr prompt, w2)))))"

text \<open>The loop of \<^verbatim>\<open>execute_chat\<close> over the history: a row whose role is neither
  \<^verbatim>\<open>user\<close> nor \<^verbatim>\<open>assistant\<close> adds nothing.\<close>

fun history_messages :: "turn list \<Rightarrow> chat_message list" where
  "history_messages [] = []"
| "history_messages (t # ts) =
     (if turn_role t = ''user'' then HumanMessage (turn_message t) # history_messages ts
      else if turn_role t = ''assistant'' then AIMessage (turn_message t) # history_messages ts
      else history_messages ts)"

text \<open>The list \<^verbatim>\<open>messages\<close> that \<^verbatim>\<open>execute_chat\<close> hands to the model.\<close>

definition build_messages :: "string \<Rightarrow> turn list \<Rightarrow> string \<Rightarrow> chat_message list" where
  "build_messages prompt history msg =
     [SystemMessage prompt] @ history_messages (last_slice 10 history) @ [HumanMessage msg]"

definition apology :: "string \<Rightarrow> string" where
  "apology reason = ''I apologize, but I encountered an error: '' @ reason"

definition execute_chat :: "oracles \<Rightarrow> world \<Rightarrow> chat_state \<Rightarrow> (exn + chat_state) \<times> world" where
  "execute_chat env w s =
     (let name =
            (case (case profession_name s of None \<Rightarrow> [] | Some n \<Rightarrow> n) of
               c # cs \<Rightarrow> c # cs
             | [] \<Rightarrow> if current_persona s = [] then ''general_expert'' else current_persona s);
          resolved =
            (case (case profession_prompt s of None \<Rightarrow> [] | Some p \<Rightarrow> p) of
               c # cs \<Rightarrow> (Inr (c # cs), w)
             | [] \<Rightarrow> get_or_create_profession_prompt env w (user_id s) name)
      in case resolved of
           (Inl e, w1) \<Rightarrow> (Inl e, w1)
         | (Inr prompt, w1) \<Rightarrow>
             (let s1 = s\<lparr>profession_prompt := Some prompt\<rparr>;
                  messages = build_messages prompt (conversation_history s) (message s);
                  w2 = invoked (Generate messages) w1
              in case chat_model env messages of
                   Returns assistant_message \<Rightarrow>
                     (let (saved_user, w3) =
                            save_message w2 (user_id s) name ''user'' (message s);
                          (saved_assistant, w4) =
                            save_message w3 (user_id s) name ''assistant'' assistant_message
                      in (Inr (s1\<lparr>response := assistant_message, action := ''complete''\<rparr>), w4))
                 | Raises m \<Rightarrow>
                     (Inr (s1\<lparr>response := apology m, action := ''complete''\<rparr>), w2)))"

section \<open>The graph and the endpoints\<close>

definition route_next :: "chat_state \<Rightarrow> string" where
  "route_next s =
     (if action s = ''validate_user'' \<or> action s = ''handle_persona'' \<or>
         action s = ''execute_chat''
      then action s else ''complete'')"

text \<open>The node a name of \<^verbatim>\<open>conditional_mapping\<close> stands for.\<close>

definition run_node ::
    "string \<Rightarrow> oracles \<Rightarrow> world \<Rightarrow> chat_state \<Rightarrow> (exn + chat_state) \<times> world" where
  "run_node node env w s =
     (if node = ''initialize_chat'' then (Inr (initialize_chat s), w)
      else if node = ''validate_user'' then validate_user w s
      else if node = ''handle_persona'' then handle_persona env w s
      else execute_chat env w s)"

text \<open>
  The compiled graph: run a node, ask \<^verbatim>\<open>route_next\<close>, stop at \<^verbatim>\<open>END\<close>
  (the name \<^verbatim>\<open>complete\<close>). The first argument counts the steps left;
  \<^verbatim>\<open>graph.invoke\<close> starts at the entry point with LangGraph's default limit of 25
  and raises when it is used up.
\<close>

fun graph_run ::
    "nat \<Rightarrow> string \<Rightarrow> oracles \<Rightarrow> world \<Rightarrow> chat_state \<Rightarrow> (exn + chat_state) \<times> world" where
  "graph_run 0 node env w s = (Inl GraphRecursionError, w)"
| "graph_run (Suc n) node env w s =
     (case run_node node env w s of
        (Inl e, w1) \<Rightarrow> (Inl e, w1)
      | (Inr s1, w1) \<Rightarrow>
          (if route_next s1 = ''complete'' then (Inr s1, w1)
           else graph_run n (route_next s1) env w1 s1))"

definition graph_invoke :: "oracles \<Rightarrow> world \<Rightarrow> chat_state \<Rightarrow> (exn + chat_state) \<times> world" where
  "graph_invoke env w s = graph_run 25 ''initialize_chat'' env w s"

definition initial_state :: "chat_request \<Rightarrow> chat_state" where
  "initial_state request =
     \<lparr>user_id = req_user_id request,
      message = req_message request,
      current_persona =
        (case req_persona_name request of None \<Rightarrow> ''general_expert'' | Some p \<Rightarrow> p),
      conversation_history = [],
      response = [],
      st_user_exists = False,
      persona_detected = [],
      action = ''initialize'',
      profession_name = None,
      profession_prompt = None\<rparr>"

text \<open>\<^verbatim>\<open>POST /chat\<close>: every exception of the graph becomes
  \<^verbatim>\<open>HTTPException(500, str(e))\<close>.\<close>

definition chat :: "oracles \<Rightarrow> world \<Rightarrow> chat_request \<Rightarrow> (exn + chat_response) \<times> world" where
  "chat env w request =
     (case graph_invoke env w (initial_state request) of
        (Inl e, w1) \<Rightarrow> (Inl (HTTPException 500 (Str e)), w1)
      | (Inr final_state, w1) \<Rightarrow>
          (Inr \<lparr>resp_response = response final_state,
                resp_persona_name = current_persona final_state,
                resp_user_id = user_id final_state\<rparr>, w1))"

text \<open>\<^verbatim>\<open>GET /chat_history/{user_id}\<close> and \<^verbatim>\<open>GET /personas/{user_id}\<close>: an
  \<^verbatim>\<open>HTTPException\<close> raised inside is passed on, any other exception becomes a 500.\<close>

definition get_chat_history ::
    "world \<Rightarrow> string \<Rightarrow> exn + (string set \<times> (string \<Rightarrow> turn list option))" where
  "get_chat_history w uid =
     (case user_exists w uid of
        Inl e \<Rightarrow> Inl (HTTPException 500 (Str e))
      | Inr False \<Rightarrow> Inl (HTTPException 404 (Literal ''User not found''))
      | Inr True \<Rightarrow>
          (case get_all_chat_history w uid of
             Inl e \<Rightarrow> Inl (HTTPException 500 (Str e))
           | Inr history \<Rightarrow>
               (case get_user_personas w uid of
                  Inl e \<Rightarrow> Inl (HTTPException 500 (Str e))
                | Inr personas \<Rightarrow> Inr (personas, history))))"

definition get_user_personas_endpoint :: "world \<Rightarrow> string \<Rightarrow> exn + string set" where
  "get_user_personas_endpoint w uid =
     (case user_exists w uid of
        Inl e \<Rightarrow> Inl (HTTPException 500 (Str e))
      | Inr False \<Rightarrow> Inl (HTTPException 404 (Literal ''User not found''))
      | Inr True \<Rightarrow>
          (case get_user_personas w uid of
             Inl e \<Rightarrow> Inl (HTTPException 500 (Str e))
           | Inr personas \<Rightarrow> Inr personas))"

text \<open>\<^verbatim>\<open>DELETE /user/{user_id}\<close>: the 500 raised on \<open>False\<close> is itself caught by
  the \<^verbatim>\<open>except Exception\<close> and wrapped again. The answer on success is the
  message of the source.\<close>

definition delete_user :: "world \<Rightarrow> string \<Rightarrow> (exn + string) \<times> world" where
  "delete_user w uid =
     (let (success, w1) = delete_user_data w uid
      in if success then (Inr (''User '' @ uid @ '' deleted successfully''), w1)
         else (Inl (HTTPException 500
                 (Str (HTTPException 500 (Literal ''Failed to delete user'')))), w1))"

section \<open>Invariant and example inputs\<close>

text \<open>No stored instruction text is empty. The pipeline keeps this: the only writer of
  \<^verbatim>\<open>professions\<close> stores what \<^verbatim>\<open>generate_profession_prompt_with_llm\<close> returns.\<close>

definition prompts_nonempty :: "world \<Rightarrow> bool" where
  "prompts_nonempty w = (filter (\<lambda>r. prof_prompt r = []) (professions w) = [])"

definition empty_world :: world where
  "empty_world =
     \<lparr>users = [], conversations = [], professions = [], connect_error = None, llm_calls = [],
      write_faults = []\<rparr>"

definition world_u1 :: world where
  "world_u1 = empty_world\<lparr>users := [''u1'']\<rparr>"

definition world_mentor :: world where
  "world_mentor = snd (save_profession_prompt world_u1 ''u1'' ''mentor'' ''first'')"

text \<open>Oracles that answer the same whatever they are asked.\<close>

definition scripted :: "json option reply \<Rightarrow> string reply \<Rightarrow> string reply \<Rightarrow> oracles" where
  "scripted verdict prompt answer =
     \<lparr>classifier = (\<lambda>msg current. verdict),
      prompt_writer = (\<lambda>name. prompt),
      chat_model = (\<lambda>messages. answer)\<rparr>"

definition verdict :: "bool \<Rightarrow> string \<Rightarrow> json option reply" where
  "verdict switch name =
     Returns (Some (JObj [(''should_switch'', JBool switch), (''profession_name'', JStr name)]))"

definition request_u1 :: "string option \<Rightarrow> chat_request" where
  "request_u1 persona = \<lparr>req_user_id = ''u1'', req_message = ''hi'', req_persona_name = persona\<rparr>"

text \<open>A thread of twelve turns, a state of the last node that carries it, and oracles
  that always answer.\<close>

definition twelve_turns :: "turn list" where
  "twelve_turns =
     [\<lparr>turn_role = ''user'', turn_message = ''q1''\<rparr>,
      \<lparr>turn_role = ''assistant'', turn_message = ''r1''\<rparr>,
      \<lparr>turn_role = ''user'', turn_message = ''q2''\<rparr>,
      \<lparr>turn_role = ''assistant'', turn_message = ''r2''\<rparr>,
      \<lparr>turn_role = ''user'', turn_message = ''q3''\<rparr>,
      \<lparr>turn_role = ''assistant'', turn_message = ''r3''\<rparr>,
      \<lparr>turn_role = ''user'', turn_message = ''q4''\<rparr>,
      \<lparr>turn_role = ''assistant'', turn_message = ''r4''\<rparr>,
      \<lparr>turn_role = ''user'', turn_message = ''q5''\<rparr>,
      \<lparr>turn_role = ''assistant'', turn_message = ''r5''\<rparr>,
      \<lparr>turn_role = ''user'', turn_message = ''q6''\<rparr>,
      \<lparr>turn_role = ''assistant'', turn_message = ''r6''\<rparr>]"

definition state_mentor :: chat_state where
  "state_mentor =
     (initial_state (request_u1 (Some ''mentor'')))
       \<lparr>conversation_history := twelve_turns, profession_name := Some ''mentor''\<rparr>"

definition plain_oracles :: oracles where
  "plain_oracles = scripted (Returns None) (Returns ''Be a pro.'') (Returns ''Hello!'')"

text \<open>A key of 256 characters, a request that carries it, and a world in which the insert
  of the turn of the user is lost.\<close>

definition long_key :: string where
  "long_key = replicate 256 (CHR ''k'')"

definition request_long :: chat_request where
  "request_long = \<lparr>req_user_id = long_key, req_message = ''hi'', req_persona_name = None\<rparr>"

definition world_lossy :: world where
  "world_lossy = world_u1\<lparr>write_faults := [SaveMessage ''u1'' ''mentor'' ''user'' ''hi'']\<rparr>"

section \<open>Lemmas on the database\<close>

lemma has_profile_prompt_update [simp]:
  "has_profile u n (r\<lparr>prof_prompt := prompt\<rparr>) = has_profile u n r"
  by (simp add: has_profile_def)

lemma filter_rewritten_same:
  "filter (has_profile uid name)
     (map (\<lambda>r. if has_profile uid name r then r\<lparr>prof_prompt := prompt\<rparr> else r) rows) =
   map (\<lambda>r. r\<lparr>prof_prompt := prompt\<rparr>) (filter (has_profile uid name) rows)"
  by (induction rows) simp_all

lemma filter_rewritten_other:
  "(u, n) \<noteq> (uid, name) \<Longrightarrow>
   filter (has_profile u n)
     (map (\<lambda>r. if has_profile uid name r then r\<lparr>prof_prompt := prompt\<rparr> else r) rows) =
   filter (has_profile u n) rows"
  by (induction rows) (auto simp: has_profile_def)

lemma filter_upsert_same:
  "filter (has_profile uid name) (upsert_prompt uid name prompt rows) =
     (if filter (has_profile uid name) rows = []
      then [\<lparr>prof_user_id = uid, prof_profession_name = name, prof_prompt = prompt\<rparr>]
      else map (\<lambda>r. r\<lparr>prof_prompt := prompt\<rparr>) (filter (has_profile uid name) rows))"
proof -
  have "has_profile uid name
          \<lparr>prof_user_id = uid, prof_profession_name = name, prof_prompt = prompt\<rparr>"
    by (simp add: has_profile_def)
  then show ?thesis by (simp add: upsert_prompt_def filter_rewritten_same)
qed

lemma filter_upsert_other:
  "(u, n) \<noteq> (uid, name) \<Longrightarrow>
   filter (has_profile u n) (upsert_prompt uid name prompt rows) = filter (has_profile u n) rows"
proof -
  assume ne: "(u, n) \<noteq> (uid, name)"
  then have "\<not> has_profile u n
          \<lparr>prof_user_id = uid, prof_profession_name = name, prof_prompt = prompt\<rparr>"
    by (auto simp: has_profile_def)
  then show ?thesis using filter_rewritten_other[OF ne] by (simp add: upsert_prompt_def)
qed

lemma varchar_fits [simp]: "length s \<le> n \<Longrightarrow> varchar n s = Some s"
  by (simp add: varchar_def)

lemma varchar_length: "varchar n s = Some k \<Longrightarrow> length k \<le> n"
  by (auto simp: varchar_def split: if_splits)

lemma create_user_effect:
  "conversations (snd (create_user w uid)) = conversations w \<and>
   professions (snd (create_user w uid)) = professions w \<and>
   connect_error (snd (create_user w uid)) = connect_error w \<and>
   llm_calls (snd (create_user w uid)) = llm_calls w \<and>
   write_faults (snd (create_user w uid)) = write_faults w \<and>
   users (snd (create_user w uid)) =
     (if connect_error w \<noteq> None \<or>
         CreateUser uid \<in> set (write_faults w)
      then users w
      else (case varchar 255 uid of
              None \<Rightarrow> users w
            | Some key \<Rightarrow> if key \<in> set (users w) then users w else users w @ [key]))"
  by (simp add: create_user_def split: option.splits)

lemma save_profession_prompt_effect:
  "users (snd (save_profession_prompt w uid name prompt)) = users w \<and>
   conversations (snd (save_profession_prompt w uid name prompt)) = conversations w \<and>
   connect_error (snd (save_profession_prompt w uid name prompt)) = connect_error w \<and>
   llm_calls (snd (save_profession_prompt w uid name prompt)) = llm_calls w \<and>
   write_faults (snd (save_profession_prompt w uid name prompt)) = write_faults w \<and>
   professions (snd (save_profession_prompt w uid name prompt)) =
     (case varchar 255 uid of
        None \<Rightarrow> professions w
      | Some key \<Rightarrow>
          (case varchar 255 name of
             None \<Rightarrow> professions w
           | Some label \<Rightarrow>
               if connect_error w = None \<and> key \<in> set (users w) \<and>
                  SaveProfessionPrompt uid name prompt
                    \<notin> set (write_faults w)
               then upsert_prompt key label prompt (professions w)
               else professions w))"
  by (simp add: save_profession_prompt_def split: option.splits)

lemma save_message_effect:
  "users (snd (save_message w uid persona r m)) = users w \<and>
   professions (snd (save_message w uid persona r m)) = professions w \<and>
   connect_error (snd (save_message w uid persona r m)) = connect_error w \<and>
   llm_calls (snd (save_message w uid persona r m)) = llm_calls w \<and>
   write_faults (snd (save_message w uid persona r m)) = write_faults w \<and>
   (length r \<le> 50 \<longrightarrow>
    conversations (snd (save_message w uid persona r m)) =
      conversations w @
      (case varchar 255 uid of
         None \<Rightarrow> []
       | Some key \<Rightarrow>
           (case varchar 255 persona of
              None \<Rightarrow> []
            | Some label \<Rightarrow>
                if connect_error w = None \<and> key \<in> set (users w) \<and>
                   SaveMessage uid persona r m
                     \<notin> set (write_faults w)
                then [\<lparr>conv_user_id = key, conv_persona_name = label,
                        conv_role = r, conv_message = m\<rparr>]
                else [])))"
  by (simp add: save_message_def split: option.splits)

section \<open>Claims on the persistence layer\<close>

text \<open>
  C4, as amended. \<^verbatim>\<open>save_profession_prompt\<close> is an insert-or-update: on a reachable
  database, for a known identity, a key and a name that fit their columns and a write that
  no fault hits, it succeeds, the text stored for the pair afterwards is the text just
  written (the last writer wins), and the pair still has one row (as many as before, or one
  when it had none).
\<close>

theorem save_profession_prompt_last_writer:
  assumes "connect_error w = None" and "uid \<in> set (users w)"
      and "length uid \<le> 255" and "length name \<le> 255"
      and "SaveProfessionPrompt uid name prompt \<notin> set (write_faults w)"
  shows "fst (save_profession_prompt w uid name prompt) = True \<and>
         get_profession_prompt (snd (save_profession_prompt w uid name prompt)) uid name
           = Inr (Some prompt) \<and>
         length (filter (has_profile uid name)
                   (professions (snd (save_profession_prompt w uid name prompt))))
           = max 1 (length (filter (has_profile uid name) (professions w)))"
  using assms
  by (cases "filter (has_profile uid name) (professions w)")
     (simp_all add: save_profession_prompt_def get_profession_prompt_def filter_upsert_same)

theorem save_profession_prompt_last_writer_witness:
  "connect_error world_mentor = None \<and> ''u1'' \<in> set (users world_mentor) \<and>
   fst (save_profession_prompt world_mentor ''u1'' ''mentor'' ''second'') = True \<and>
   get_profession_prompt
     (snd (save_profession_prompt world_mentor ''u1'' ''mentor'' ''second''))
     ''u1'' ''mentor'' = Inr (Some ''second'') \<and>
   length (filter (has_profile ''u1'' ''mentor'')
             (professions (snd (save_profession_prompt world_mentor ''u1'' ''mentor'' ''second''))))
     = 1"
proof -
  have h: "connect_error world_mentor = None" "''u1'' \<in> set (users world_mentor)"
    "length ''u1'' \<le> 255" "length ''mentor'' \<le> 255"
    "SaveProfessionPrompt ''u1'' ''mentor'' ''second'' \<notin> set (write_faults world_mentor)"
    by (simp_all add: world_mentor_def save_profession_prompt_def world_u1_def empty_world_def)
  have n: "length (filter (has_profile ''u1'' ''mentor'') (professions world_mentor)) = 1"
    by (simp add: world_mentor_def save_profession_prompt_def world_u1_def empty_world_def
        upsert_prompt_def has_profile_def)
  show ?thesis
    using save_profession_prompt_last_writer [OF h] h(1,2) n by simp
qed

text \<open>
  C4 as stated fails: the pair (u1, mentor) holds the text \<open>first\<close>; persisting
  \<open>second\<close> for the same pair changes the stored text to \<open>second\<close>.
\<close>

theorem stored_profile_overwritten:
  "get_profession_prompt world_mentor ''u1'' ''mentor'' = Inr (Some ''first'') \<and>
   get_profession_prompt
     (snd (save_profession_prompt world_mentor ''u1'' ''mentor'' ''second''))
     ''u1'' ''mentor'' = Inr (Some ''second'') \<and>
   ''second'' \<noteq> ''first''"
  by (simp add: world_mentor_def save_profession_prompt_def get_profession_prompt_def
      upsert_prompt_def has_profile_def world_u1_def empty_world_def)



text \<open>
  C10. Deleting an identity that is not stored reports success on a reachable database
  and leaves the identities as they were, where both query endpoints answer 404; and
  whatever the database, the delete endpoint never answers 404.
\<close>

theorem delete_unknown_user_reports_success:
  assumes "connect_error w = None" and "uid \<notin> set (users w)"
  shows "fst (delete_user w uid) = Inr (''User '' @ uid @ '' deleted successfully'') \<and>
         users (snd (delete_user w uid)) = users w \<and>
         get_chat_history w uid = Inl (HTTPException 404 (Literal ''User not found'')) \<and>
         get_user_personas_endpoint w uid =
           Inl (HTTPException 404 (Literal ''User not found'')) \<and>
         (\<forall>w' d. fst (delete_user w' uid) \<noteq> Inl (HTTPException 404 d))"
  using assms
  by (auto simp: delete_user_def delete_user_data_def get_chat_history_def
      get_user_personas_endpoint_def user_exists_def filter_id_conv split: option.splits)

theorem delete_unknown_user_reports_success_witness:
  "connect_error world_u1 = None \<and> ''nobody'' \<notin> set (users world_u1) \<and>
   fst (delete_user world_u1 ''nobody'') = Inr ''User nobody deleted successfully'' \<and>
   users (snd (delete_user world_u1 ''nobody'')) = [''u1''] \<and>
   get_chat_history world_u1 ''nobody'' = Inl (HTTPException 404 (Literal ''User not found''))"
proof -
  have h: "connect_error world_u1 = None" "''nobody'' \<notin> set (users world_u1)"
    by (simp_all add: world_u1_def empty_world_def)
  show ?thesis
    using delete_unknown_user_reports_success [OF h] h by (simp add: world_u1_def empty_world_def)
qed

section \<open>Lemmas on trimming\<close>

lemma dropWhile_fix: "xs = [] \<or> \<not> P (hd xs) \<Longrightarrow> dropWhile P xs = xs"
  by (cases xs) auto

lemma strip_Nil [simp]: "strip [] = []"
  by (simp add: strip_def)

lemma strip_no_outer_space:
  "strip s = [] \<or> (\<not> is_space (hd (strip s)) \<and> \<not> is_space (last (strip s)))"
proof (cases "strip s = []")
  case True then show ?thesis by simp
next
  case False
  define t where "t = dropWhile is_space s"
  define u where "u = dropWhile is_space (rev t)"
  have su: "strip s = rev u" by (simp add: strip_def t_def u_def)
  with False have une: "u \<noteq> []" by simp
  have hu: "\<not> is_space (hd u)" using une unfolding u_def by (rule hd_dropWhile)
  have "rev t = takeWhile is_space (rev t) @ u" by (simp add: u_def)
  then have "rev (rev t) = rev (takeWhile is_space (rev t) @ u)" by simp
  then obtain v where tv: "t = rev u @ v" by simp
  have tne: "t \<noteq> []" and "hd t = hd (rev u)" using une by (auto simp: tv hd_append)
  moreover have "\<not> is_space (hd t)" using tne unfolding t_def by (rule hd_dropWhile)
  ultimately have "\<not> is_space (hd (strip s))" by (simp add: su)
  moreover have "\<not> is_space (last (strip s))" using hu une by (simp add: su last_rev)
  ultimately show ?thesis by simp
qed

lemma strip_idem: "strip (strip s) = strip s"
proof (cases "strip s = []")
  case True
  then show ?thesis by simp
next
  case False
  with strip_no_outer_space[of s]
  have h: "\<not> is_space (hd (strip s))" and l: "\<not> is_space (last (strip s))" by auto
  have a: "dropWhile is_space (strip s) = strip s" using h False by (simp add: dropWhile_fix)
  have "hd (rev (strip s)) = last (strip s)" using False by (simp add: hd_rev)
  then have b: "dropWhile is_space (rev (strip s)) = rev (strip s)" using l False
    by (simp add: dropWhile_fix)
  show ?thesis unfolding strip_def[of "strip s"] a b by simp
qed

section \<open>Lemmas on the nodes\<close>

lemma detect_string_candidate:
  assumes "classifier env msg cur = Returns (Some (JObj data))"
      and "dict_get data ''profession_name'' = Some (JStr c)"
  shows "detect_profession_from_message env w msg cur =
           (Inr ((case dict_get data ''should_switch'' of None \<Rightarrow> False | Some v \<Rightarrow> truthy v),
                 if strip c = [] then cur else strip c),
            invoked (Classify msg cur) w)"
  using assms by (cases "c = []") (simp_all add: detect_profession_from_message_def Let_def)

lemma detect_label_nonempty:
  "detect_profession_from_message env w msg cur = (Inr (b, name), w1) \<Longrightarrow> cur \<noteq> [] \<Longrightarrow> name \<noteq> []"
  by (auto simp: detect_profession_from_message_def Let_def
      split: reply.splits option.splits json.splits if_splits)

lemma detect_world:
  "detect_profession_from_message env w msg cur = (r, w1) \<Longrightarrow> w1 = invoked (Classify msg cur) w"
  by (auto simp: detect_profession_from_message_def Let_def
      split: reply.splits option.splits json.splits if_splits)

lemma handle_persona_string_candidate:
  assumes "classifier env (message s) cur = Returns (Some (JObj data))"
      and "dict_get data ''profession_name'' = Some (JStr c)"
      and "cur = (if current_persona s = [] then ''general_expert'' else current_persona s)"
  shows "handle_persona env w s =
           (let name = (if strip c = [] then cur else strip c);
                w1 = invoked (Classify (message s) cur) w;
                s1 = s\<lparr>persona_detected := name, current_persona := name,
                       profession_name := Some name\<rparr>
            in case persona_exists_for_user w1 (user_id s) name of
                 Inl e \<Rightarrow> (Inl e, w1)
               | Inr True \<Rightarrow>
                   (case get_persona_history w1 (user_id s) name of
                      Inl e \<Rightarrow> (Inl e, w1)
                    | Inr history \<Rightarrow>
                        (Inr (s1\<lparr>conversation_history := history,
                                  action := ''execute_chat''\<rparr>), w1))
               | Inr False \<Rightarrow>
                   (Inr (s1\<lparr>conversation_history := [], action := ''execute_chat''\<rparr>), w1))"
proof -
  have cur: "cur \<noteq> []" using assms(3) by (simp split: if_splits)
  have d: "detect_profession_from_message env w (message s) cur =
           (Inr ((case dict_get data ''should_switch'' of None \<Rightarrow> False | Some v \<Rightarrow> truthy v),
                 if strip c = [] then cur else strip c),
            invoked (Classify (message s) cur) w)"
    using assms(1,2) by (rule detect_string_candidate)
  show ?thesis
    unfolding handle_persona_def assms(3)[symmetric] Let_def d using cur by simp
qed

lemma initialize_chat_action: "action (initialize_chat s) = ''validate_user''"
  by (simp add: initialize_chat_def Let_def)

lemma validate_user_action:
  "validate_user w s = (Inr s', w') \<Longrightarrow> action s' = ''handle_persona''"
  by (auto simp: validate_user_def Let_def split: sum.splits if_splits prod.splits)

lemma handle_persona_action:
  "handle_persona env w s = (Inr s', w') \<Longrightarrow> action s' = ''execute_chat''"
  by (auto simp: handle_persona_def Let_def split: sum.splits prod.splits bool.splits)

lemma execute_chat_action:
  "execute_chat env w s = (Inr s', w') \<Longrightarrow> action s' = ''complete''"
  by (auto simp: execute_chat_def Let_def split: sum.splits prod.splits reply.splits)

lemma graph_run_step:
  "graph_run (Suc n) node env w s =
     (case run_node node env w s of
        (Inl e, w1) \<Rightarrow> (Inl e, w1)
      | (Inr s1, w1) \<Rightarrow>
          (if route_next s1 = ''complete'' then (Inr s1, w1)
           else graph_run n (route_next s1) env w1 s1))"
  by simp

declare graph_run.simps(2) [simp del]

lemma run_execute_chat:
  "graph_run (Suc n) ''execute_chat'' env w s = execute_chat env w s"
  by (cases "execute_chat env w s")
     (auto simp: graph_run_step run_node_def route_next_def
        dest: execute_chat_action split: sum.splits)

lemma run_handle_persona:
  "graph_run (Suc (Suc n)) ''handle_persona'' env w s =
     (case handle_persona env w s of
        (Inl e, w1) \<Rightarrow> (Inl e, w1)
      | (Inr s1, w1) \<Rightarrow> execute_chat env w1 s1)"
  by (cases "handle_persona env w s")
     (auto simp: graph_run_step[of "Suc n"] run_node_def route_next_def run_execute_chat
        dest: handle_persona_action split: sum.splits)

lemma run_validate_user:
  "graph_run (Suc (Suc (Suc n))) ''validate_user'' env w s =
     (case validate_user w s of
        (Inl e, w1) \<Rightarrow> (Inl e, w1)
      | (Inr s1, w1) \<Rightarrow>
          (case handle_persona env w1 s1 of
             (Inl e, w2) \<Rightarrow> (Inl e, w2)
           | (Inr s2, w2) \<Rightarrow> execute_chat env w2 s2))"
  by (cases "validate_user w s")
     (auto simp: graph_run_step[of "Suc (Suc n)"] run_node_def route_next_def run_handle_persona
        dest: validate_user_action split: sum.splits)

lemma run_initialize_chat:
  "graph_run (Suc (Suc (Suc (Suc n)))) ''initialize_chat'' env w s =
     (case validate_user w (initialize_chat s) of
        (Inl e, w1) \<Rightarrow> (Inl e, w1)
      | (Inr s2, w2) \<Rightarrow>
          (case handle_persona env w2 s2 of
             (Inl e, w3) \<Rightarrow> (Inl e, w3)
           | (Inr s3, w3) \<Rightarrow> execute_chat env w3 s3))"
  by (simp add: graph_run_step[of "Suc (Suc (Suc n))"] run_node_def route_next_def
      initialize_chat_action run_validate_user)

lemma graph_invoke_nodes:
  "graph_invoke env w s =
     (case validate_user w (initialize_chat s) of
        (Inl e, w1) \<Rightarrow> (Inl e, w1)
      | (Inr s2, w2) \<Rightarrow>
          (case handle_persona env w2 s2 of
             (Inl e, w3) \<Rightarrow> (Inl e, w3)
           | (Inr s3, w3) \<Rightarrow> execute_chat env w3 s3))"
proof -
  have n: "(25::nat) = Suc (Suc (Suc (Suc 21)))" by simp
  show ?thesis by (simp only: graph_invoke_def n run_initialize_chat)
qed

lemma validate_user_effects:
  assumes "validate_user w s = (Inr s2, w2)"
  shows "connect_error w = None \<and> connect_error w2 = None \<and>
         user_id s2 = user_id s \<and> message s2 = message s \<and>
         current_persona s2 = current_persona s \<and>
         profession_name s2 = profession_name s \<and>
         profession_prompt s2 = profession_prompt s \<and>
         users w2 =
           (if (user_id s) \<in> set (users w) \<or> CreateUser (user_id s) \<in> set (write_faults w)
            then users w
            else (case varchar 255 (user_id s) of
                    None \<Rightarrow> users w
                  | Some key \<Rightarrow> if key \<in> set (users w) then users w else users w @ [key])) \<and>
         conversations w2 = conversations w \<and> professions w2 = professions w \<and>
         llm_calls w2 = llm_calls w \<and> write_faults w2 = write_faults w"
  using assms
  by (auto simp: validate_user_def user_exists_def create_user_def Let_def
      split: option.splits if_splits)

lemma handle_persona_effects:
  assumes "handle_persona env w s = (Inr s3, w3)"
  shows "current_persona s3 \<noteq> [] \<and>
         persona_detected s3 = current_persona s3 \<and>
         profession_name s3 = Some (current_persona s3) \<and>
         conversation_history s3 =
           map as_turn (filter (in_thread (user_id s) (current_persona s3)) (conversations w)) \<and>
         user_id s3 = user_id s \<and> message s3 = message s \<and>
         profession_prompt s3 = profession_prompt s \<and>
         users w3 = users w \<and> conversations w3 = conversations w \<and>
         professions w3 = professions w \<and> connect_error w3 = connect_error w \<and>
         write_faults w3 = write_faults w"
proof -
  define cur where "cur = (if current_persona s = [] then ''general_expert'' else current_persona s)"
  have cur: "cur \<noteq> []" by (simp add: cur_def)
  from assms obtain b detected w1 where
    d: "detect_profession_from_message env w (message s) cur = (Inr (b, detected), w1)"
    by (auto simp: handle_persona_def Let_def cur_def split: prod.splits sum.splits)
  have w1: "w1 = invoked (Classify (message s) cur) w" using d by (rule detect_world)
  have ne: "detected \<noteq> []" using d cur by (rule detect_label_nonempty)
  show ?thesis
    using assms ne unfolding handle_persona_def Let_def cur_def[symmetric] d
    by (auto simp: w1 invoked_def persona_exists_for_user_def get_persona_history_def
        split: option.splits bool.splits if_splits)
qed

lemma fallback_prompt_nonempty: "fallback_prompt name \<noteq> []"
  by (simp add: fallback_prompt_def)

lemma generate_prompt_effects:
  assumes "generate_profession_prompt_with_llm env w name = (Inr p, w1)"
  shows "p \<noteq> [] \<and> w1 = invoked (Synthesize name) w \<and>
         (\<exists>raw. prompt_writer env name = Returns raw \<and>
                p = (if strip raw = [] then fallback_prompt name else strip raw))"
  using assms
  by (auto simp: generate_profession_prompt_with_llm_def Let_def fallback_prompt_nonempty
      split: reply.splits if_splits)

lemma prompts_nonempty_upsert:
  "prompt \<noteq> [] \<Longrightarrow> filter (\<lambda>r. prof_prompt r = []) rows = [] \<Longrightarrow>
   filter (\<lambda>r. prof_prompt r = []) (upsert_prompt uid name prompt rows) = []"
  by (auto simp: upsert_prompt_def filter_empty_conv)

lemma get_or_create_effects:
  assumes "get_or_create_profession_prompt env w uid name = (Inr p, w1)"
  shows "connect_error w = None \<and> connect_error w1 = None \<and> p \<noteq> [] \<and>
         users w1 = users w \<and> conversations w1 = conversations w \<and>
         write_faults w1 = write_faults w \<and>
         (prompts_nonempty w \<longrightarrow> prompts_nonempty w1) \<and>
         ((get_profession_prompt w uid name = Inr (Some p) \<and> w1 = w) \<or>
          ((get_profession_prompt w uid name = Inr None \<or>
            get_profession_prompt w uid name = Inr (Some [])) \<and>
           (\<exists>raw. prompt_writer env name = Returns raw \<and>
                  p = (if strip raw = [] then fallback_prompt name else strip raw)) \<and>
           llm_calls w1 = llm_calls w @ [Synthesize name] \<and>
           professions w1 =
             (case varchar 255 uid of
                None \<Rightarrow> professions w
              | Some key \<Rightarrow>
                  (case varchar 255 name of
                     None \<Rightarrow> professions w
                   | Some label \<Rightarrow>
                       if key \<in> set (users w) \<and>
                          SaveProfessionPrompt uid name p \<notin> set (write_faults w)
                       then upsert_prompt key label p (professions w)
                       else professions w))))"
proof -
  from assms(1) obtain existing where g: "get_profession_prompt w uid name = Inr existing"
    by (auto simp: get_or_create_profession_prompt_def split: sum.splits)
  then have c: "connect_error w = None"
    by (auto simp: get_profession_prompt_def split: option.splits)
  show ?thesis
  proof (cases "case existing of None \<Rightarrow> [] | Some q \<Rightarrow> q")
    case (Cons a as)
    then have "existing = Some (a # as)" by (auto split: option.splits)
    with assms(1) g c show ?thesis by (auto simp: get_or_create_profession_prompt_def)
  next
    case Nil
    then have ex: "existing = None \<or> existing = Some []" by (auto split: option.splits)
    from Nil assms(1) g obtain wg where
      gen: "generate_profession_prompt_with_llm env w name = (Inr p, wg)" and
      sv: "w1 = snd (save_profession_prompt wg uid name p)"
      by (auto simp: get_or_create_profession_prompt_def split: prod.splits sum.splits)
    from generate_prompt_effects[OF gen] have p: "p \<noteq> []"
      and wg: "wg = invoked (Synthesize name) w"
      and raw: "\<exists>raw. prompt_writer env name = Returns raw \<and>
                  p = (if strip raw = [] then fallback_prompt name else strip raw)"
      by blast+
    note eff = save_profession_prompt_effect[of wg uid name p, folded sv]
    have f: "users w1 = users w" "conversations w1 = conversations w"
      "connect_error w1 = None" "write_faults w1 = write_faults w"
      "llm_calls w1 = llm_calls w @ [Synthesize name]"
      using eff c by (simp_all add: wg invoked_def)
    have pr: "professions w1 =
             (case varchar 255 uid of
                None \<Rightarrow> professions w
              | Some key \<Rightarrow>
                  (case varchar 255 name of
                     None \<Rightarrow> professions w
                   | Some label \<Rightarrow>
                       if key \<in> set (users w) \<and>
                          SaveProfessionPrompt uid name p \<notin> set (write_faults w)
                       then upsert_prompt key label p (professions w)
                       else professions w))"
      using eff c by (simp add: wg invoked_def cong: option.case_cong if_cong)
    have inv: "prompts_nonempty w \<longrightarrow> prompts_nonempty w1"
      using p by (simp add: pr prompts_nonempty_def prompts_nonempty_upsert split: option.splits)
    show ?thesis using c p f pr inv raw g ex by auto
  qed
qed

lemma execute_chat_effects:
  assumes "execute_chat env w s = (Inr s4, w4)"
      and "profession_name s = Some name" and "name \<noteq> []"
      and "profession_prompt s = None"
  shows "\<exists>prompt w1.
           get_or_create_profession_prompt env w (user_id s) name = (Inr prompt, w1) \<and>
           profession_prompt s4 = Some prompt \<and>
           current_persona s4 = current_persona s \<and>
           persona_detected s4 = persona_detected s \<and>
           profession_name s4 = profession_name s \<and>
           user_id s4 = user_id s \<and>
           conversation_history s4 = conversation_history s \<and>
           llm_calls w4 = llm_calls w1 @
             [Generate (build_messages prompt (conversation_history s) (message s))] \<and>
           users w4 = users w \<and> professions w4 = professions w1 \<and>
           connect_error w4 = None \<and> write_faults w4 = write_faults w \<and>
           (case chat_model env (build_messages prompt (conversation_history s) (message s)) of
              Raises m \<Rightarrow> response s4 = apology m \<and> conversations w4 = conversations w
            | Returns a \<Rightarrow>
                response s4 = a \<and>
                conversations w4 = conversations w @
                  (case varchar 255 (user_id s) of
                     None \<Rightarrow> []
                   | Some key \<Rightarrow>
                       (case varchar 255 name of
                          None \<Rightarrow> []
                        | Some label \<Rightarrow>
                            if key \<in> set (users w) \<and>
                               SaveMessage (user_id s) name ''user'' (message s) \<notin> set (write_faults w)
                            then [\<lparr>conv_user_id = key, conv_persona_name = label,
                                    conv_role = ''user'', conv_message = (message s)\<rparr>]
                            else [])) @
                  (case varchar 255 (user_id s) of
                     None \<Rightarrow> []
                   | Some key \<Rightarrow>
                       (case varchar 255 name of
                          None \<Rightarrow> []
                        | Some label \<Rightarrow>
                            if key \<in> set (users w) \<and>
                               SaveMessage (user_id s) name ''assistant'' a \<notin> set (write_faults w)
                            then [\<lparr>conv_user_id = key, conv_persona_name = label,
                                    conv_role = ''assistant'', conv_message = a\<rparr>]
                            else [])))"
proof -
  obtain c cs where n: "name = c # cs" using assms(3) by (auto simp: neq_Nil_conv)
  from assms(1) obtain prompt w1 where
    g: "get_or_create_profession_prompt env w (user_id s) name = (Inr prompt, w1)"
    by (auto simp: execute_chat_def Let_def assms(2,4) n split: prod.splits sum.splits)
  from get_or_create_effects[OF g]
  have c1: "connect_error w1 = None" and u1: "users w1 = users w"
    and cv: "conversations w1 = conversations w" and wf: "write_faults w1 = write_faults w"
    by auto
  let ?msgs = "build_messages prompt (conversation_history s) (message s)"
  let ?w2 = "invoked (Generate ?msgs) w1"
  have w2: "connect_error ?w2 = None" "users ?w2 = users w" "conversations ?w2 = conversations w"
    "write_faults ?w2 = write_faults w" "professions ?w2 = professions w1"
    "llm_calls ?w2 = llm_calls w1 @ [Generate ?msgs]"
    using c1 u1 cv wf by (simp_all add: invoked_def)
  show ?thesis
  proof (cases "chat_model env ?msgs")
    case (Raises m)
    from assms(1) have "s4 = s\<lparr>profession_prompt := Some prompt, response := apology m,
        action := ''complete''\<rparr>" and "w4 = ?w2"
      unfolding execute_chat_def Let_def assms(2,4) n option.case list.case g[unfolded n]
      by (simp_all add: Raises n)
    with g w2 Raises show ?thesis by (simp add: n)
  next
    case (Returns a)
    let ?w3 = "snd (save_message ?w2 (user_id s) name ''user'' (message s))"
    let ?w4 = "snd (save_message ?w3 (user_id s) name ''assistant'' a)"
    from assms(1) have s4: "s4 = s\<lparr>profession_prompt := Some prompt, response := a,
        action := ''complete''\<rparr>" and w4: "w4 = ?w4"
      unfolding execute_chat_def Let_def assms(2,4) n option.case list.case g[unfolded n]
      by (simp_all add: Returns n case_prod_beta)
    note e3 = save_message_effect[of ?w2 "user_id s" name "''user''" "message s"]
    note e4 = save_message_effect[of ?w3 "user_id s" name "''assistant''" a]
    have f3: "users ?w3 = users w" "connect_error ?w3 = None" "write_faults ?w3 = write_faults w"
      "professions ?w3 = professions w1" "llm_calls ?w3 = llm_calls w1 @ [Generate ?msgs]"
      using e3 w2 by simp_all
    have c3: "conversations ?w3 = conversations w @
        (case varchar 255 (user_id s) of
           None \<Rightarrow> []
         | Some key \<Rightarrow>
             (case varchar 255 name of
                None \<Rightarrow> []
              | Some label \<Rightarrow>
                  if key \<in> set (users w) \<and>
                     SaveMessage (user_id s) name ''user'' (message s) \<notin> set (write_faults w)
                  then [\<lparr>conv_user_id = key, conv_persona_name = label,
                          conv_role = ''user'', conv_message = (message s)\<rparr>]
                  else []))"
      using e3 w2 by (simp cong: option.case_cong if_cong)
    have f4: "users ?w4 = users w" "connect_error ?w4 = None" "write_faults ?w4 = write_faults w"
      "professions ?w4 = professions w1" "llm_calls ?w4 = llm_calls w1 @ [Generate ?msgs]"
      using e4 f3 by simp_all
    have c4: "conversations ?w4 = conversations ?w3 @
        (case varchar 255 (user_id s) of
           None \<Rightarrow> []
         | Some key \<Rightarrow>
             (case varchar 255 name of
                None \<Rightarrow> []
              | Some label \<Rightarrow>
                  if key \<in> set (users w) \<and>
                     SaveMessage (user_id s) name ''assistant'' a \<notin> set (write_faults w)
                  then [\<lparr>conv_user_id = key, conv_persona_name = label,
                          conv_role = ''assistant'', conv_message = a\<rparr>]
                  else []))"
      using e4 f3 by (simp cong: option.case_cong if_cong)
    show ?thesis
      using g Returns f4 by (simp add: s4 w4 c4 c3 del: append_assoc)
  qed
qed

lemma graph_invoke_stages:
  assumes "graph_invoke env w s = (Inr s4, w4)"
  shows "\<exists>s2 w2 s3 w3. validate_user w (initialize_chat s) = (Inr s2, w2) \<and>
           handle_persona env w2 s2 = (Inr s3, w3) \<and> execute_chat env w3 s3 = (Inr s4, w4)"
  using assms unfolding graph_invoke_nodes by (auto split: prod.splits sum.splits)

lemma initialize_chat_fields:
  "user_id (initialize_chat s) = user_id s \<and> message (initialize_chat s) = message s \<and>
   profession_name (initialize_chat s) = profession_name s \<and>
   profession_prompt (initialize_chat s) = profession_prompt s"
  by (simp add: initialize_chat_def Let_def)

lemma initial_state_fields:
  "user_id (initial_state req) = req_user_id req \<and> message (initial_state req) = req_message req \<and>
   profession_name (initial_state req) = None \<and> profession_prompt (initial_state req) = None"
  by (simp add: initial_state_def)

lemma history_messages_length: "length (history_messages ts) \<le> length ts"
  by (induction ts) auto

lemma history_messages_all:
  "list_all (\<lambda>t. turn_role t = ''user'' \<or> turn_role t = ''assistant'') ts \<Longrightarrow>
   length (history_messages ts) = length ts"
  by (induction ts) auto

lemma save_message_llm_calls: "llm_calls (snd (save_message w uid p r m)) = llm_calls w"
  by (simp add: save_message_def split: option.splits)

lemma execute_chat_generate:
  assumes "execute_chat env w s = (Inr s', w')"
  shows "\<exists>prompt (w1::world). profession_prompt s' = Some prompt \<and>
           llm_calls w' = llm_calls w1 @
             [Generate (build_messages prompt (conversation_history s) (message s))]"
proof -
  define name where "name =
     (case (case profession_name s of None \<Rightarrow> [] | Some n \<Rightarrow> n) of
        c # cs \<Rightarrow> c # cs
      | [] \<Rightarrow> if current_persona s = [] then ''general_expert'' else current_persona s)"
  define resolved where "resolved =
     (case (case profession_prompt s of None \<Rightarrow> [] | Some p \<Rightarrow> p) of
        c # cs \<Rightarrow> (Inr (c # cs), w)
      | [] \<Rightarrow> get_or_create_profession_prompt env w (user_id s) name)"
  have ex: "execute_chat env w s =
     (case resolved of
        (Inl e, w1) \<Rightarrow> (Inl e, w1)
      | (Inr prompt, w1) \<Rightarrow>
          (case chat_model env (build_messages prompt (conversation_history s) (message s)) of
             Returns a \<Rightarrow>
               (Inr (s\<lparr>profession_prompt := Some prompt, response := a,
                       action := ''complete''\<rparr>),
                snd (save_message
                  (snd (save_message
                     (invoked (Generate (build_messages prompt (conversation_history s)
                        (message s))) w1)
                     (user_id s) name ''user'' (message s)))
                  (user_id s) name ''assistant'' a))
           | Raises m \<Rightarrow>
               (Inr (s\<lparr>profession_prompt := Some prompt, response := apology m,
                       action := ''complete''\<rparr>),
                invoked (Generate (build_messages prompt (conversation_history s)
                  (message s))) w1)))"
    unfolding execute_chat_def name_def[symmetric] resolved_def[symmetric] Let_def
    by (simp only: case_prod_beta split: prod.splits sum.splits reply.splits)
  obtain r w1 where res: "resolved = (r, w1)" by (cases resolved)
  from assms obtain prompt where r: "r = Inr prompt"
    by (cases r) (simp_all add: ex res)
  let ?msgs = "build_messages prompt (conversation_history s) (message s)"
  have "profession_prompt s' = Some prompt \<and> llm_calls w' = llm_calls w1 @ [Generate ?msgs]"
  proof (cases "chat_model env ?msgs")
    case (Raises m)
    from assms have "s' = s\<lparr>profession_prompt := Some prompt, response := apology m,
        action := ''complete''\<rparr>" and "w' = invoked (Generate ?msgs) w1"
      by (simp_all add: ex res r Raises)
    then show ?thesis by (simp add: invoked_def)
  next
    case (Returns a)
    from assms have "s' = s\<lparr>profession_prompt := Some prompt, response := a,
        action := ''complete''\<rparr>"
      and "w' = snd (save_message (snd (save_message (invoked (Generate ?msgs) w1)
                     (user_id s) name ''user'' (message s))) (user_id s) name ''assistant'' a)"
      by (simp_all add: ex res r Returns)
    then show ?thesis by (simp add: save_message_llm_calls invoked_def)
  qed
  then have "\<exists>w1::world. profession_prompt s' = Some prompt \<and>
      llm_calls w' = llm_calls w1 @ [Generate ?msgs]" by (rule exI)
  then show ?thesis by (rule exI)
qed

section \<open>Every outcome of the pipeline\<close>

lemma validate_user_any:
  assumes "validate_user w s = (r, w2)"
  shows "llm_calls w2 = llm_calls w \<and> connect_error w2 = connect_error w \<and>
         write_faults w2 = write_faults w \<and>
         users w2 =
           (if connect_error w \<noteq> None \<or> (user_id s) \<in> set (users w) \<or> CreateUser (user_id s) \<in> set (write_faults w)
            then users w
            else (case varchar 255 (user_id s) of
                    None \<Rightarrow> users w
                  | Some key \<Rightarrow> if key \<in> set (users w) then users w else users w @ [key])) \<and>
         (connect_error w = None \<longrightarrow> (\<exists>s2. r = Inr s2))"
  using assms
  by (auto simp: validate_user_def user_exists_def create_user_def Let_def
      split: option.splits if_splits)

lemma detect_error_kind:
  "detect_profession_from_message env w msg cur = (Inl e, w1) \<Longrightarrow>
   (\<exists>m. e = LLMError m \<or> e = AttributeError m)"
  by (auto simp: detect_profession_from_message_def Let_def
      split: reply.splits option.splits json.splits if_splits)

lemma handle_persona_any:
  assumes "handle_persona env w s = (r, w3)"
  shows "users w3 = users w \<and> connect_error w3 = connect_error w \<and>
         write_faults w3 = write_faults w \<and>
         llm_calls w3 = llm_calls w @
           [Classify (message s)
              (if current_persona s = [] then ''general_expert'' else current_persona s)] \<and>
         (\<forall>e. r = Inl e \<longrightarrow> connect_error w = None \<longrightarrow>
            (\<exists>m. e = LLMError m \<or> e = AttributeError m))"
proof -
  define cur where "cur = (if current_persona s = [] then ''general_expert'' else current_persona s)"
  obtain rd w1 where d: "detect_profession_from_message env w (message s) cur = (rd, w1)"
    by (cases "detect_profession_from_message env w (message s) cur")
  have w1: "w1 = invoked (Classify (message s) cur) w" using d by (rule detect_world)
  show ?thesis
  proof (cases rd)
    case (Inl e)
    with assms d have "r = Inl e" "w3 = w1"
      by (simp_all add: handle_persona_def Let_def cur_def)
    with detect_error_kind[OF d[unfolded Inl]] show ?thesis
      by (auto simp: w1 invoked_def cur_def)
  next
    case (Inr p)
    obtain b detected where p: "p = (b, detected)" by (cases p)
    show ?thesis
      using assms unfolding handle_persona_def Let_def cur_def[symmetric] d Inr p
      by (auto simp: w1 invoked_def persona_exists_for_user_def get_persona_history_def
          split: option.splits bool.splits if_splits)
  qed
qed

lemma get_or_create_any:
  assumes "get_or_create_profession_prompt env w uid name = (r, w1)"
  shows "users w1 = users w \<and> connect_error w1 = connect_error w \<and>
         conversations w1 = conversations w \<and> write_faults w1 = write_faults w \<and>
         (llm_calls w1 = llm_calls w \<or> llm_calls w1 = llm_calls w @ [Synthesize name]) \<and>
         (\<forall>e. r = Inl e \<longrightarrow> connect_error w = None \<longrightarrow> (\<exists>m. e = LLMError m))"
  using assms
  by (auto simp: get_or_create_profession_prompt_def get_profession_prompt_def
      generate_profession_prompt_with_llm_def save_profession_prompt_def invoked_def Let_def
      split: option.splits list.splits reply.splits if_splits)

lemma execute_chat_cases:
  assumes "name =
     (case (case profession_name s of None \<Rightarrow> [] | Some n \<Rightarrow> n) of
        c # cs \<Rightarrow> c # cs
      | [] \<Rightarrow> if current_persona s = [] then ''general_expert'' else current_persona s)"
    and "resolved =
     (case (case profession_prompt s of None \<Rightarrow> [] | Some p \<Rightarrow> p) of
        c # cs \<Rightarrow> (Inr (c # cs), w)
      | [] \<Rightarrow> get_or_create_profession_prompt env w (user_id s) name)"
  shows "execute_chat env w s =
     (case resolved of
        (Inl e, w1) \<Rightarrow> (Inl e, w1)
      | (Inr prompt, w1) \<Rightarrow>
          (case chat_model env (build_messages prompt (conversation_history s) (message s)) of
             Returns a \<Rightarrow>
               (Inr (s\<lparr>profession_prompt := Some prompt, response := a,
                       action := ''complete''\<rparr>),
                snd (save_message
                  (snd (save_message
                     (invoked (Generate (build_messages prompt (conversation_history s)
                        (message s))) w1)
                     (user_id s) name ''user'' (message s)))
                  (user_id s) name ''assistant'' a))
           | Raises m \<Rightarrow>
               (Inr (s\<lparr>profession_prompt := Some prompt, response := apology m,
                       action := ''complete''\<rparr>),
                invoked (Generate (build_messages prompt (conversation_history s)
                  (message s))) w1)))"
  unfolding execute_chat_def assms(1)[symmetric] assms(2)[symmetric] Let_def
  by (simp only: case_prod_beta split: prod.splits sum.splits reply.splits)

lemma save_message_frame:
  "users (snd (save_message w uid p r m)) = users w \<and>
   connect_error (snd (save_message w uid p r m)) = connect_error w \<and>
   write_faults (snd (save_message w uid p r m)) = write_faults w \<and>
   llm_calls (snd (save_message w uid p r m)) = llm_calls w"
  by (simp add: save_message_def split: option.splits)

lemma execute_chat_any:
  assumes "execute_chat env w s = (r, w4)"
  shows "users w4 = users w \<and> connect_error w4 = connect_error w \<and>
         write_faults w4 = write_faults w \<and>
         (\<exists>cs. llm_calls w4 = llm_calls w @ cs \<and>
            (case r of
               Inl e \<Rightarrow> (\<forall>msgs. Generate msgs \<notin> set cs) \<and>
                          (connect_error w = None \<longrightarrow> (\<exists>m. e = LLMError m))
             | Inr s4 \<Rightarrow> (\<exists>pre msgs. cs = pre @ [Generate msgs]) \<and> user_id s4 = user_id s))"
proof -
  define name where "name =
     (case (case profession_name s of None \<Rightarrow> [] | Some n \<Rightarrow> n) of
        c # cs \<Rightarrow> c # cs
      | [] \<Rightarrow> if current_persona s = [] then ''general_expert'' else current_persona s)"
  define resolved where "resolved =
     (case (case profession_prompt s of None \<Rightarrow> [] | Some p \<Rightarrow> p) of
        c # cs \<Rightarrow> (Inr (c # cs), w)
      | [] \<Rightarrow> get_or_create_profession_prompt env w (user_id s) name)"
  note ex = execute_chat_cases[OF name_def resolved_def]
  obtain rp w1 where res: "resolved = (rp, w1)" by (cases resolved)
  have fr: "users w1 = users w \<and> connect_error w1 = connect_error w \<and>
         write_faults w1 = write_faults w \<and>
         (llm_calls w1 = llm_calls w \<or> llm_calls w1 = llm_calls w @ [Synthesize name]) \<and>
         (\<forall>e. rp = Inl e \<longrightarrow> connect_error w = None \<longrightarrow> (\<exists>m. e = LLMError m))"
  proof (cases "case profession_prompt s of None \<Rightarrow> [] | Some p \<Rightarrow> p")
    case Nil
    then have "get_or_create_profession_prompt env w (user_id s) name = (rp, w1)"
      using res by (simp add: resolved_def)
    from get_or_create_any[OF this] show ?thesis by simp
  next
    case (Cons a as)
    then have "rp = Inr (a # as)" "w1 = w" using res by (simp_all add: resolved_def)
    then show ?thesis by simp
  qed
  then obtain pre where pre: "llm_calls w1 = llm_calls w @ pre"
    "\<forall>msgs. Generate msgs \<notin> set pre" by auto
  show ?thesis
  proof (cases rp)
    case (Inl e)
    with assms have "r = Inl e" "w4 = w1" by (simp_all add: ex res)
    with fr pre Inl show ?thesis by auto
  next
    case (Inr prompt)
    let ?msgs = "build_messages prompt (conversation_history s) (message s)"
    show ?thesis
    proof (cases "chat_model env ?msgs")
      case (Raises m)
      from assms have "r = Inr (s\<lparr>profession_prompt := Some prompt, response := apology m,
          action := ''complete''\<rparr>)" and "w4 = invoked (Generate ?msgs) w1"
        by (simp_all add: ex res Inr Raises)
      with fr pre show ?thesis by (simp add: invoked_def)
    next
      case (Returns a)
      from assms have "r = Inr (s\<lparr>profession_prompt := Some prompt, response := a,
          action := ''complete''\<rparr>)"
        and "w4 = snd (save_message (snd (save_message (invoked (Generate ?msgs) w1)
                     (user_id s) name ''user'' (message s))) (user_id s) name ''assistant'' a)"
        by (simp_all add: ex res Inr Returns)
      with fr pre show ?thesis by (simp add: save_message_frame invoked_def)
    qed
  qed
qed

lemma chat_any:
  assumes "chat env w request = (out, w')"
  shows "connect_error w' = connect_error w \<and> write_faults w' = write_faults w \<and>
         users w' =
           (if connect_error w \<noteq> None \<or> (req_user_id request) \<in> set (users w) \<or> CreateUser (req_user_id request) \<in> set (write_faults w)
            then users w
            else (case varchar 255 (req_user_id request) of
                    None \<Rightarrow> users w
                  | Some key \<Rightarrow> if key \<in> set (users w) then users w else users w @ [key])) \<and>
         (\<exists>cs. llm_calls w' = llm_calls w @ cs \<and>
            (case out of
               Inl e \<Rightarrow>
                 (\<forall>msgs. Generate msgs \<notin> set cs) \<and>
                 (connect_error w = None \<longrightarrow>
                    (\<exists>m. e = HTTPException 500 (Str (LLMError m)) \<or>
                         e = HTTPException 500 (Str (AttributeError m))))
             | Inr resp \<Rightarrow>
                 (\<exists>pre msgs. cs = pre @ [Generate msgs]) \<and>
                 resp_user_id resp = req_user_id request))"
proof -
  let ?s1 = "initialize_chat (initial_state request)"
  have u1: "user_id ?s1 = req_user_id request"
    using initialize_chat_fields[of "initial_state request"] initial_state_fields[of request]
    by simp
  obtain r2 w2 where v: "validate_user w ?s1 = (r2, w2)" by (cases "validate_user w ?s1")
  note va = validate_user_any[OF v, unfolded u1]
  have g: "graph_invoke env w (initial_state request) =
     (case r2 of Inl e \<Rightarrow> (Inl e, w2)
      | Inr s2 \<Rightarrow>
          (case handle_persona env w2 s2 of
             (Inl e, w3) \<Rightarrow> (Inl e, w3)
           | (Inr s3, w3) \<Rightarrow> execute_chat env w3 s3))"
    by (simp add: graph_invoke_nodes v split: sum.splits)
  show ?thesis
  proof (cases r2)
    case (Inl e)
    with assms g have o: "out = Inl (HTTPException 500 (Str e))" "w' = w2"
      by (simp_all add: chat_def)
    from va Inl have "connect_error w \<noteq> None" by auto
    with va o show ?thesis by auto
  next
    case (Inr s2)
    have id2: "user_id s2 = req_user_id request"
      using v Inr u1 by (auto simp: validate_user_def Let_def user_exists_def
          split: sum.splits option.splits if_splits prod.splits)
    obtain r3 w3 where h: "handle_persona env w2 s2 = (r3, w3)"
      by (cases "handle_persona env w2 s2")
    note ha = handle_persona_any[OF h]
    show ?thesis
    proof (cases r3)
      case (Inl e)
      with assms g Inr h have o: "out = Inl (HTTPException 500 (Str e))" "w' = w3"
        by (simp_all add: chat_def)
      from ha Inl va have "connect_error w = None \<longrightarrow> (\<exists>m. e = LLMError m \<or> e = AttributeError m)"
        by simp
      with va ha o show ?thesis by auto
    next
      case s3: (Inr s3)
      have id3: "user_id s3 = req_user_id request"
        using h s3 id2 by (auto simp: handle_persona_def Let_def
            split: sum.splits prod.splits bool.splits)
      obtain r4 w4 where e: "execute_chat env w3 s3 = (r4, w4)"
        by (cases "execute_chat env w3 s3")
      from execute_chat_any[OF e] obtain cs where
        ea: "users w4 = users w3" "connect_error w4 = connect_error w3"
            "write_faults w4 = write_faults w3"
            "llm_calls w4 = llm_calls w3 @ cs"
            "(case r4 of
               Inl e \<Rightarrow> (\<forall>msgs. Generate msgs \<notin> set cs) \<and>
                          (connect_error w3 = None \<longrightarrow> (\<exists>m. e = LLMError m))
             | Inr s4 \<Rightarrow> (\<exists>pre msgs. cs = pre @ [Generate msgs]) \<and> user_id s4 = user_id s3)"
        by blast
      have gi: "graph_invoke env w (initial_state request) = (r4, w4)"
        by (simp add: g Inr h s3 e)
      show ?thesis
      proof (cases r4)
        case (Inl x)
        with assms gi have o: "out = Inl (HTTPException 500 (Str x))" "w' = w4"
          by (simp_all add: chat_def)
        from ea Inl have "\<forall>msgs. Generate msgs \<notin> set cs"
          "connect_error w3 = None \<longrightarrow> (\<exists>m. x = LLMError m)" by simp_all
        with va ha ea(1,2,3,4) o show ?thesis by auto
      next
        case s4: (Inr s4)
        with assms gi have o: "out = Inr \<lparr>resp_response = response s4,
            resp_persona_name = current_persona s4, resp_user_id = user_id s4\<rparr>" "w' = w4"
          by (simp_all add: chat_def)
        from ea s4 obtain pre msgs where c: "cs = pre @ [Generate msgs]"
          and "user_id s4 = user_id s3" by auto
        with va ha ea(1,2,3,4) o id3 show ?thesis by auto
      qed
    qed
  qed
qed

lemma chat_success:
  assumes "chat env w request = (Inr resp, w')"
  shows "\<exists>final. graph_invoke env w (initial_state request) = (Inr final, w') \<and>
           resp_response resp = response final \<and>
           resp_persona_name resp = current_persona final \<and>
           resp_user_id resp = user_id final"
  using assms by (auto simp: chat_def split: prod.splits sum.splits)

lemma count_list_distinct:
  "distinct xs \<Longrightarrow> count_list xs x = (if x \<in> set xs then 1 else 0)"
  by (induction xs) auto

lemma pipeline_success:
  assumes "graph_invoke env w (initial_state request) = (Inr final, w')"
  shows "\<exists>(w3::world) (w4::world) prompt.
           current_persona final \<noteq> [] \<and>
           persona_detected final = current_persona final \<and>
           profession_name final = Some (current_persona final) \<and>
           user_id final = req_user_id request \<and>
           conversation_history final =
             map as_turn (filter (in_thread (req_user_id request) (current_persona final))
               (conversations w)) \<and>
           conversations w3 = conversations w \<and> professions w3 = professions w \<and>
           write_faults w3 = write_faults w \<and> connect_error w3 = None \<and>
           llm_calls w3 = llm_calls w @
             [Classify (req_message request)
                (case req_persona_name request of
                   None \<Rightarrow> ''general_expert''
                 | Some p \<Rightarrow> if p = [] then ''general_expert'' else p)] \<and>
           users w3 =
             (if req_user_id request \<in> set (users w) \<or>
                 CreateUser (req_user_id request) \<in> set (write_faults w)
              then users w
              else (case varchar 255 (req_user_id request) of
                      None \<Rightarrow> users w
                    | Some key \<Rightarrow> if key \<in> set (users w) then users w else users w @ [key])) \<and>
           connect_error w = None \<and>
           get_or_create_profession_prompt env w3 (req_user_id request) (current_persona final)
             = (Inr prompt, w4) \<and>
           profession_prompt final = Some prompt \<and>
           llm_calls w' = llm_calls w4 @
             [Generate (build_messages prompt (conversation_history final)
                (req_message request))] \<and>
           professions w' = professions w4 \<and> connect_error w' = None \<and>
           users w' = users w3 \<and> write_faults w' = write_faults w \<and>
           (case chat_model env (build_messages prompt (conversation_history final)
                   (req_message request)) of
              Raises m \<Rightarrow> response final = apology m \<and> conversations w' = conversations w
            | Returns a \<Rightarrow>
                response final = a \<and>
                conversations w' = conversations w @
                  (case varchar 255 (req_user_id request) of
                     None \<Rightarrow> []
                   | Some key \<Rightarrow>
                       (case varchar 255 (current_persona final) of
                          None \<Rightarrow> []
                        | Some label \<Rightarrow>
                            if key \<in> set (users w3) \<and>
                               SaveMessage (req_user_id request) (current_persona final) ''user'' (req_message request)
                                 \<notin> set (write_faults w)
                            then [\<lparr>conv_user_id = key, conv_persona_name = label,
                                    conv_role = ''user'', conv_message = req_message request\<rparr>]
                            else [])) @
                  (case varchar 255 (req_user_id request) of
                     None \<Rightarrow> []
                   | Some key \<Rightarrow>
                       (case varchar 255 (current_persona final) of
                          None \<Rightarrow> []
                        | Some label \<Rightarrow>
                            if key \<in> set (users w3) \<and>
                               SaveMessage (req_user_id request) (current_persona final) ''assistant'' a
                                 \<notin> set (write_faults w)
                            then [\<lparr>conv_user_id = key, conv_persona_name = label,
                                    conv_role = ''assistant'', conv_message = a\<rparr>]
                            else [])))"
proof -
  let ?s1 = "initialize_chat (initial_state request)"
  from graph_invoke_stages[OF assms] obtain s2 w2 s3 w3 where
    v: "validate_user w ?s1 = (Inr s2, w2)" and
    h: "handle_persona env w2 s2 = (Inr s3, w3)" and
    e: "execute_chat env w3 s3 = (Inr final, w')" by blast
  note i = initialize_chat_fields[of "initial_state request"] initial_state_fields[of request]
  from validate_user_effects[OF v] i have
    v1: "connect_error w = None" "user_id s2 = req_user_id request"
        "message s2 = req_message request" "profession_prompt s2 = None"
        "conversations w2 = conversations w"
        "professions w2 = professions w" "write_faults w2 = write_faults w"
        "connect_error w2 = None"
        "users w2 =
           (if req_user_id request \<in> set (users w) \<or>
               CreateUser (req_user_id request) \<in> set (write_faults w)
            then users w
            else (case varchar 255 (req_user_id request) of
                    None \<Rightarrow> users w
                  | Some key \<Rightarrow> if key \<in> set (users w) then users w else users w @ [key]))" by simp_all
  from handle_persona_effects[OF h] v1 have
    h1: "current_persona s3 \<noteq> []" "persona_detected s3 = current_persona s3"
        "profession_name s3 = Some (current_persona s3)"
        "conversation_history s3 =
           map as_turn (filter (in_thread (req_user_id request) (current_persona s3))
             (conversations w))"
        "user_id s3 = req_user_id request" "message s3 = req_message request"
        "profession_prompt s3 = None"
        "conversations w3 = conversations w" "professions w3 = professions w"
        "write_faults w3 = write_faults w" "connect_error w3 = None"
        "users w3 = users w2" by simp_all
  from execute_chat_effects[OF e h1(3) h1(1) h1(7)] obtain prompt w4 where
    e1: "get_or_create_profession_prompt env w3 (user_id s3) (current_persona s3)
           = (Inr prompt, w4)"
        "profession_prompt final = Some prompt"
        "current_persona final = current_persona s3"
        "persona_detected final = persona_detected s3"
        "profession_name final = profession_name s3"
        "user_id final = user_id s3"
        "conversation_history final = conversation_history s3"
        "llm_calls w' = llm_calls w4 @
           [Generate (build_messages prompt (conversation_history s3) (message s3))]"
        "users w' = users w3" "professions w' = professions w4" "connect_error w' = None"
        "write_faults w' = write_faults w3"
        "(case chat_model env (build_messages prompt (conversation_history s3) (message s3)) of
            Raises m \<Rightarrow> response final = apology m \<and> conversations w' = conversations w3
          | Returns a \<Rightarrow>
              response final = a \<and>
              conversations w' = conversations w3 @
                (case varchar 255 (user_id s3) of
                   None \<Rightarrow> []
                 | Some key \<Rightarrow>
                     (case varchar 255 (current_persona s3) of
                        None \<Rightarrow> []
                      | Some label \<Rightarrow>
                          if key \<in> set (users w3) \<and>
                             SaveMessage (user_id s3) (current_persona s3) ''user'' (message s3)
                               \<notin> set (write_faults w3)
                          then [\<lparr>conv_user_id = key, conv_persona_name = label,
                                  conv_role = ''user'', conv_message = message s3\<rparr>]
                          else [])) @
                (case varchar 255 (user_id s3) of
                   None \<Rightarrow> []
                 | Some key \<Rightarrow>
                     (case varchar 255 (current_persona s3) of
                        None \<Rightarrow> []
                      | Some label \<Rightarrow>
                          if key \<in> set (users w3) \<and>
                             SaveMessage (user_id s3) (current_persona s3) ''assistant'' a
                               \<notin> set (write_faults w3)
                          then [\<lparr>conv_user_id = key, conv_persona_name = label,
                                  conv_role = ''assistant'', conv_message = a\<rparr>]
                          else [])))"
    by blast
  have u3: "users w3 =
           (if req_user_id request \<in> set (users w) \<or>
               CreateUser (req_user_id request) \<in> set (write_faults w)
            then users w
            else (case varchar 255 (req_user_id request) of
                    None \<Rightarrow> users w
                  | Some key \<Rightarrow> if key \<in> set (users w) then users w else users w @ [key]))"
    using h1(12) v1(9) by simp
  define cur0 where "cur0 =
      (case req_persona_name request of
         None \<Rightarrow> ''general_expert''
       | Some p \<Rightarrow> if p = [] then ''general_expert'' else p)"
  have ne: "cur0 \<noteq> []" by (simp add: cur0_def split: option.splits)
  have "current_persona ?s1 = cur0"
    by (simp add: cur0_def initialize_chat_def initial_state_def Let_def split: option.splits)
  moreover have "current_persona s2 = current_persona ?s1" "llm_calls w2 = llm_calls w"
    using validate_user_effects[OF v] by simp_all
  ultimately have cp: "current_persona s2 = cur0" and l2: "llm_calls w2 = llm_calls w"
    by simp_all
  have "llm_calls w3 = llm_calls w2 @
      [Classify (message s2)
         (if current_persona s2 = [] then ''general_expert'' else current_persona s2)]"
    using handle_persona_any[OF h] by simp
  then have "llm_calls w3 = llm_calls w @ [Classify (req_message request) cur0]"
    using ne by (simp add: cp l2 v1(3))
  then have l3: "llm_calls w3 = llm_calls w @
             [Classify (req_message request)
                (case req_persona_name request of
                   None \<Rightarrow> ''general_expert''
                 | Some p \<Rightarrow> if p = [] then ''general_expert'' else p)]"
    by (simp add: cur0_def)
  have k: "(case chat_model env (build_messages prompt (conversation_history final)
                   (req_message request)) of
              Raises m \<Rightarrow> response final = apology m \<and> conversations w' = conversations w
            | Returns a \<Rightarrow>
                response final = a \<and>
                conversations w' = conversations w @
                  (case varchar 255 (req_user_id request) of
                     None \<Rightarrow> []
                   | Some key \<Rightarrow>
                       (case varchar 255 (current_persona final) of
                          None \<Rightarrow> []
                        | Some label \<Rightarrow>
                            if key \<in> set (users w3) \<and>
                               SaveMessage (req_user_id request) (current_persona final) ''user'' (req_message request)
                                 \<notin> set (write_faults w)
                            then [\<lparr>conv_user_id = key, conv_persona_name = label,
                                    conv_role = ''user'', conv_message = req_message request\<rparr>]
                            else [])) @
                  (case varchar 255 (req_user_id request) of
                     None \<Rightarrow> []
                   | Some key \<Rightarrow>
                       (case varchar 255 (current_persona final) of
                          None \<Rightarrow> []
                        | Some label \<Rightarrow>
                            if key \<in> set (users w3) \<and>
                               SaveMessage (req_user_id request) (current_persona final) ''assistant'' a
                                 \<notin> set (write_faults w)
                            then [\<lparr>conv_user_id = key, conv_persona_name = label,
                                    conv_role = ''assistant'', conv_message = a\<rparr>]
                            else [])))"
    using e1(13) unfolding e1(3,7) h1(5,6,8,10) by simp
  have "current_persona final \<noteq> [] \<and>
           persona_detected final = current_persona final \<and>
           profession_name final = Some (current_persona final) \<and>
           user_id final = req_user_id request \<and>
           conversation_history final =
             map as_turn (filter (in_thread (req_user_id request) (current_persona final))
               (conversations w)) \<and>
           conversations w3 = conversations w \<and> professions w3 = professions w \<and>
           write_faults w3 = write_faults w \<and> connect_error w3 = None \<and>
           llm_calls w3 = llm_calls w @
             [Classify (req_message request)
                (case req_persona_name request of
                   None \<Rightarrow> ''general_expert''
                 | Some p \<Rightarrow> if p = [] then ''general_expert'' else p)] \<and>
           users w3 =
             (if req_user_id request \<in> set (users w) \<or>
                 CreateUser (req_user_id request) \<in> set (write_faults w)
              then users w
              else (case varchar 255 (req_user_id request) of
                      None \<Rightarrow> users w
                    | Some key \<Rightarrow> if key \<in> set (users w) then users w else users w @ [key])) \<and>
           connect_error w = None \<and>
           get_or_create_profession_prompt env w3 (req_user_id request) (current_persona final)
             = (Inr prompt, w4) \<and>
           profession_prompt final = Some prompt \<and>
           llm_calls w' = llm_calls w4 @
             [Generate (build_messages prompt (conversation_history final)
                (req_message request))] \<and>
           professions w' = professions w4 \<and> connect_error w' = None \<and>
           users w' = users w3 \<and> write_faults w' = write_faults w \<and>
           (case chat_model env (build_messages prompt (conversation_history final)
                   (req_message request)) of
              Raises m \<Rightarrow> response final = apology m \<and> conversations w' = conversations w
            | Returns a \<Rightarrow>
                response final = a \<and>
                conversations w' = conversations w @
                  (case varchar 255 (req_user_id request) of
                     None \<Rightarrow> []
                   | Some key \<Rightarrow>
                       (case varchar 255 (current_persona final) of
                          None \<Rightarrow> []
                        | Some label \<Rightarrow>
                            if key \<in> set (users w3) \<and>
                               SaveMessage (req_user_id request) (current_persona final) ''user'' (req_message request)
                                 \<notin> set (write_faults w)
                            then [\<lparr>conv_user_id = key, conv_persona_name = label,
                                    conv_role = ''user'', conv_message = req_message request\<rparr>]
                            else [])) @
                  (case varchar 255 (req_user_id request) of
                     None \<Rightarrow> []
                   | Some key \<Rightarrow>
                       (case varchar 255 (current_persona final) of
                          None \<Rightarrow> []
                        | Some label \<Rightarrow>
                            if key \<in> set (users w3) \<and>
                               SaveMessage (req_user_id request) (current_persona final) ''assistant'' a
                                 \<notin> set (write_faults w)
                            then [\<lparr>conv_user_id = key, conv_persona_name = label,
                                    conv_role = ''assistant'', conv_message = a\<rparr>]
                            else [])))"
    using e1(1,2,3,4,5,6,7,8,9,10,11,12) h1 v1(1) u3 k l3 by simp
  then show ?thesis by (intro exI)
qed

section \<open>Claims on the router\<close>

text \<open>
  C1, as amended. The label the classifier proposes is trimmed of surrounding white space
  and not changed otherwise: two answers whose candidates differ only in surrounding white
  space make \<^verbatim>\<open>handle_persona\<close> return the same state and the same world on a
  reachable database, the label of that state is the trimmed candidate (the current label
  when nothing is left), trimming it again changes nothing, and the history loaded is the
  thread of that label.
\<close>

theorem trimmed_candidates_share_thread:
  assumes "classifier env1 (message s) cur = Returns (Some (JObj data1))"
      and "dict_get data1 ''profession_name'' = Some (JStr c1)"
      and "classifier env2 (message s) cur = Returns (Some (JObj data2))"
      and "dict_get data2 ''profession_name'' = Some (JStr c2)"
      and "cur = (if current_persona s = [] then ''general_expert'' else current_persona s)"
      and "strip c1 = strip c2"
      and "connect_error w = None"
  shows "\<exists>s' w'. handle_persona env1 w s = (Inr s', w') \<and>
           handle_persona env2 w s = (Inr s', w') \<and>
           current_persona s' = (if strip c1 = [] then cur else strip c1) \<and>
           strip (strip c1) = strip c1 \<and>
           conversation_history s' =
             map as_turn (filter (in_thread (user_id s) (current_persona s')) (conversations w))"
proof -
  have eq: "handle_persona env2 w s = handle_persona env1 w s"
    by (simp add: handle_persona_string_candidate[OF assms(1,2,5)]
        handle_persona_string_candidate[OF assms(3,4,5)] assms(6))
  have "\<exists>s' w'. handle_persona env1 w s = (Inr s', w') \<and>
           current_persona s' = (if strip c1 = [] then cur else strip c1)"
    using assms(7)
    by (auto simp: handle_persona_string_candidate[OF assms(1,2,5)] Let_def
        persona_exists_for_user_def get_persona_history_def invoked_def split: bool.splits)
  then obtain s' w' where r: "handle_persona env1 w s = (Inr s', w')"
    and c: "current_persona s' = (if strip c1 = [] then cur else strip c1)"
    by blast
  from handle_persona_effects[OF r] have
    "conversation_history s' =
       map as_turn (filter (in_thread (user_id s) (current_persona s')) (conversations w))"
    by simp
  with r c eq show ?thesis by (simp add: strip_idem)
qed

theorem trimmed_candidates_share_thread_witness:
  "\<exists>s' w'.
     handle_persona (scripted (verdict True ''investor '') (Returns ''p'') (Returns ''a''))
       empty_world (initial_state (request_u1 None)) = (Inr s', w') \<and>
     handle_persona (scripted (verdict False '' investor'') (Returns ''p'') (Returns ''a''))
       empty_world (initial_state (request_u1 None)) = (Inr s', w') \<and>
     current_persona s' = ''investor''"
proof -
  let ?env1 = "scripted (verdict True ''investor '') (Returns ''p'') (Returns ''a'')"
  let ?env2 = "scripted (verdict False '' investor'') (Returns ''p'') (Returns ''a'')"
  let ?s = "initial_state (request_u1 None)"
  let ?d1 = "[(''should_switch'', JBool True), (''profession_name'', JStr ''investor '')]"
  let ?d2 = "[(''should_switch'', JBool False), (''profession_name'', JStr '' investor'')]"
  have h1: "classifier ?env1 (message ?s) ''general_expert'' = Returns (Some (JObj ?d1))"
    by (simp add: scripted_def verdict_def)
  have h2: "dict_get ?d1 ''profession_name'' = Some (JStr ''investor '')"
    by (simp add: dict_get_def)
  have h3: "classifier ?env2 (message ?s) ''general_expert'' = Returns (Some (JObj ?d2))"
    by (simp add: scripted_def verdict_def)
  have h4: "dict_get ?d2 ''profession_name'' = Some (JStr '' investor'')"
    by (simp add: dict_get_def)
  have h5: "''general_expert'' =
      (if current_persona ?s = [] then ''general_expert'' else current_persona ?s)"
    by (simp add: initial_state_def request_u1_def)
  have st1: "strip ''investor '' = ''investor''" by (simp add: strip_def is_space_def)
  have st2: "strip '' investor'' = ''investor''" by (simp add: strip_def is_space_def)
  have h6: "strip ''investor '' = strip '' investor''" by (simp add: st1 st2)
  have h7: "connect_error empty_world = None" by (simp add: empty_world_def)
  from trimmed_candidates_share_thread[OF h1 h2 h3 h4 h5 h6 h7] show ?thesis
    by (auto simp: st1)
qed

text \<open>
  C1 as stated fails: the candidates \<open>Investor\<close> and \<open>INVESTOR\<close> give two different
  labels, since no letter is folded, and the label \<open>investor \<close> of a request that the
  classifier leaves alone keeps its trailing blank.
\<close>

theorem case_not_folded:
  "fst (chat (scripted (verdict True ''Investor'') (Returns ''p'') (Returns ''a'')) empty_world
          (request_u1 None)) =
     Inr \<lparr>resp_response = ''a'', resp_persona_name = ''Investor'', resp_user_id = ''u1''\<rparr> \<and>
   fst (chat (scripted (verdict True ''INVESTOR'') (Returns ''p'') (Returns ''a'')) empty_world
          (request_u1 None)) =
     Inr \<lparr>resp_response = ''a'', resp_persona_name = ''INVESTOR'', resp_user_id = ''u1''\<rparr> \<and>
   fst (chat (scripted (Returns None) (Returns ''p'') (Returns ''a'')) empty_world
          (request_u1 (Some ''investor ''))) =
     Inr \<lparr>resp_response = ''a'', resp_persona_name = ''investor '', resp_user_id = ''u1''\<rparr>"
  by code_simp

text \<open>
  C5, as amended. Whatever \<^verbatim>\<open>should_switch\<close> says, a string candidate is adopted
  after trimming when the trimmed candidate is not empty, and the current label is kept
  when the trimmed candidate is empty; on a reachable database \<^verbatim>\<open>handle_persona\<close>
  returns with that label.
\<close>

theorem candidate_adopted_after_trimming:
  assumes "classifier env (message s) cur = Returns (Some (JObj data))"
      and "dict_get data ''profession_name'' = Some (JStr c)"
      and "cur = (if current_persona s = [] then ''general_expert'' else current_persona s)"
      and "connect_error w = None"
  shows "\<exists>s' w'. handle_persona env w s = (Inr s', w') \<and>
           current_persona s' = (if strip c = [] then cur else strip c)"
  using assms(4)
  by (auto simp: handle_persona_string_candidate[OF assms(1,2,3)] Let_def
      persona_exists_for_user_def get_persona_history_def invoked_def split: bool.splits)

theorem candidate_adopted_after_trimming_witness:
  "\<exists>s' w'. handle_persona (scripted (verdict False '' mentor '') (Returns ''p'') (Returns ''a''))
       empty_world (initial_state (request_u1 None)) = (Inr s', w') \<and>
     current_persona s' = ''mentor''"
proof -
  let ?env = "scripted (verdict False '' mentor '') (Returns ''p'') (Returns ''a'')"
  let ?s = "initial_state (request_u1 None)"
  let ?data = "[(''should_switch'', JBool False), (''profession_name'', JStr '' mentor '')]"
  have h1: "classifier ?env (message ?s) ''general_expert'' = Returns (Some (JObj ?data))"
    by (simp add: scripted_def verdict_def)
  have h2: "dict_get ?data ''profession_name'' = Some (JStr '' mentor '')"
    by (simp add: dict_get_def)
  have h3: "''general_expert'' =
      (if current_persona ?s = [] then ''general_expert'' else current_persona ?s)"
    by (simp add: initial_state_def request_u1_def)
  have h4: "connect_error empty_world = None" by (simp add: empty_world_def)
  have st: "strip '' mentor '' = ''mentor''" by (simp add: strip_def is_space_def)
  from candidate_adopted_after_trimming[OF h1 h2 h3 h4] show ?thesis by (simp add: st)
qed

text \<open>
  C5 as stated fails: the candidate of one blank is not empty, yet the label \<open>mentor\<close> of
  the request is kept.
\<close>

theorem whitespace_candidate_not_adopted:
  "fst (chat (scripted (verdict True '' '') (Returns ''p'') (Returns ''a'')) empty_world
          (request_u1 (Some ''mentor''))) =
     Inr \<lparr>resp_response = ''a'', resp_persona_name = ''mentor'', resp_user_id = ''u1''\<rparr> \<and>
   '' '' \<noteq> ''''"
  by code_simp

text \<open>
  C2. A failure of the classifier is passed on to the caller: on a reachable database,
  when \<^verbatim>\<open>llm.invoke\<close> raises in \<^verbatim>\<open>detect_profession_from_message\<close>, with the
  current label that \<^verbatim>\<open>handle_persona\<close> hands over, \<^verbatim>\<open>POST /chat\<close> answers a
  500 whose detail is the text of that exception, which is no storage failure, and no turn
  is stored. There is no fallback to the current label.
\<close>

theorem classifier_failure_reaches_caller:
  assumes "connect_error w = None"
      and "cur = (case req_persona_name request of
                    None \<Rightarrow> ''general_expert''
                  | Some p \<Rightarrow> if p = [] then ''general_expert'' else p)"
      and "classifier env (req_message request) cur = Raises m"
  shows "fst (chat env w request) = Inl (HTTPException 500 (Str (LLMError m))) \<and>
         conversations (snd (chat env w request)) = conversations w"
proof -
  let ?s1 = "initialize_chat (initial_state request)"
  have c1: "current_persona ?s1 = cur"
    unfolding assms(2)
    by (simp add: initialize_chat_def initial_state_def Let_def split: option.splits)
  have m1: "message ?s1 = req_message request"
    by (simp add: initialize_chat_def initial_state_def Let_def)
  have cur: "cur \<noteq> []" unfolding assms(2) by (simp split: option.splits)
  obtain r2 w2 where v0: "validate_user w ?s1 = (r2, w2)" by (cases "validate_user w ?s1")
  from validate_user_any[OF v0] assms(1) obtain s2 where "r2 = Inr s2" by auto
  with v0 have v: "validate_user w ?s1 = (Inr s2, w2)" by simp
  have f2: "current_persona s2 = cur" "message s2 = req_message request"
    "conversations w2 = conversations w"
    using validate_user_effects[OF v] c1 m1 by simp_all
  have h: "handle_persona env w2 s2 =
             (Inl (LLMError m), invoked (Classify (req_message request) cur) w2)"
    using cur by (simp add: handle_persona_def detect_profession_from_message_def Let_def f2
        assms(3))
  have "chat env w request =
          (Inl (HTTPException 500 (Str (LLMError m))),
           invoked (Classify (req_message request) cur) w2)"
    by (simp add: chat_def graph_invoke_nodes v h)
  then show ?thesis by (simp add: invoked_def f2)
qed

text \<open>
  The same at a concrete request, together with the two malformed answers that raise
  after \<^verbatim>\<open>json.loads\<close>: a parsed value that is no object, and a truthy candidate
  that is no string; and with a failure of the prompt writer.
\<close>

theorem classifier_failure_reaches_caller_witness:
  "fst (chat (scripted (Raises ''timeout'') (Returns ''p'') (Returns ''a'')) empty_world
          (request_u1 None)) = Inl (HTTPException 500 (Str (LLMError ''timeout''))) \<and>
   fst (chat (scripted (Returns (Some (JArr []))) (Returns ''p'') (Returns ''a'')) empty_world
          (request_u1 None)) = Inl (HTTPException 500 (Str (AttributeError ''get''))) \<and>
   fst (chat (scripted (Returns (Some (JObj [(''profession_name'', JInt 7)]))) (Returns ''p'')
          (Returns ''a'')) empty_world (request_u1 None)) =
     Inl (HTTPException 500 (Str (AttributeError ''strip''))) \<and>
   fst (chat (scripted (verdict True ''mentor'') (Raises ''down'') (Returns ''a'')) empty_world
          (request_u1 None)) = Inl (HTTPException 500 (Str (LLMError ''down'')))"
proof -
  let ?env = "scripted (Raises ''timeout'') (Returns ''p'') (Returns ''a'')"
  have h1: "connect_error empty_world = None" by (simp add: empty_world_def)
  have h2: "''general_expert'' =
      (case req_persona_name (request_u1 None) of
         None \<Rightarrow> ''general_expert''
       | Some p \<Rightarrow> if p = [] then ''general_expert'' else p)"
    by (simp add: request_u1_def)
  have h3: "classifier ?env (req_message (request_u1 None)) ''general_expert'' = Raises ''timeout''"
    by (simp add: scripted_def)
  have a: "fst (chat (scripted (Returns (Some (JArr []))) (Returns ''p'') (Returns ''a''))
          empty_world (request_u1 None)) = Inl (HTTPException 500 (Str (AttributeError ''get'')))"
    by code_simp
  have b: "fst (chat (scripted (Returns (Some (JObj [(''profession_name'', JInt 7)])))
          (Returns ''p'') (Returns ''a'')) empty_world (request_u1 None)) =
     Inl (HTTPException 500 (Str (AttributeError ''strip'')))"
    by code_simp
  have c: "fst (chat (scripted (verdict True ''mentor'') (Raises ''down'') (Returns ''a''))
          empty_world (request_u1 None)) = Inl (HTTPException 500 (Str (LLMError ''down'')))"
    by code_simp
  from classifier_failure_reaches_caller[OF h1 h2 h3] a b c show ?thesis by simp
qed

section \<open>Claims on the executor\<close>

lemma history_messages_concat:
  "history_messages ts =
     concat (map (\<lambda>t. if turn_role t = ''user'' then [HumanMessage (turn_message t)]
                      else if turn_role t = ''assistant'' then [AIMessage (turn_message t)]
                      else []) ts)"
  by (induction ts) simp_all

text \<open>
  C6. Whenever \<^verbatim>\<open>execute_chat\<close> returns, the last call of the model was made with the
  instruction text first, then the window, then the new message last. The window is read
  off the last ten turns of the history, the oldest dropped, in their order: a turn of the
  user gives a human message with its text, a turn of the assistant an assistant message
  with its text, any other turn nothing. So it never has more than ten messages, and it
  has exactly min(10, length of the history) when every turn is of the user or of the
  assistant.
\<close>

theorem context_window_bounded:
  assumes "execute_chat env w s = (Inr s', w')"
  shows "\<exists>prompt window.
           profession_prompt s' = Some prompt \<and>
           last (llm_calls w') =
             Generate (SystemMessage prompt # window @ [HumanMessage (message s)]) \<and>
           window =
             concat (map (\<lambda>t. if turn_role t = ''user'' then [HumanMessage (turn_message t)]
                                else if turn_role t = ''assistant''
                                then [AIMessage (turn_message t)] else [])
                     (drop (length (conversation_history s) - 10) (conversation_history s))) \<and>
           length window \<le> 10 \<and>
           (list_all (\<lambda>t. turn_role t = ''user'' \<or> turn_role t = ''assistant'')
              (conversation_history s) \<longrightarrow>
            length window = min 10 (length (conversation_history s)))"
proof -
  let ?h = "drop (length (conversation_history s) - 10) (conversation_history s)"
  have len: "length (history_messages ?h) \<le> 10"
    using history_messages_length[of ?h] by simp
  have full: "list_all (\<lambda>t. turn_role t = ''user'' \<or> turn_role t = ''assistant'')
                (conversation_history s) \<Longrightarrow>
              length (history_messages ?h) = min 10 (length (conversation_history s))"
  proof -
    assume a: "list_all (\<lambda>t. turn_role t = ''user'' \<or> turn_role t = ''assistant'')
              (conversation_history s)"
    have "set ?h \<subseteq> set (conversation_history s)" by (rule set_drop_subset)
    with a have "list_all (\<lambda>t. turn_role t = ''user'' \<or> turn_role t = ''assistant'') ?h"
      unfolding list_all_iff by blast
    then show ?thesis by (simp add: history_messages_all)
  qed
  from execute_chat_generate[OF assms] obtain prompt and w1 :: world where
    s': "profession_prompt s' = Some prompt" and
    w': "llm_calls w' = llm_calls w1 @
           [Generate (build_messages prompt (conversation_history s) (message s))]"
    by blast
  have "profession_prompt s' = Some prompt \<and>
        last (llm_calls w') =
          Generate (SystemMessage prompt # history_messages ?h @ [HumanMessage (message s)]) \<and>
        length (history_messages ?h) \<le> 10 \<and>
        (list_all (\<lambda>t. turn_role t = ''user'' \<or> turn_role t = ''assistant'')
           (conversation_history s) \<longrightarrow>
         length (history_messages ?h) = min 10 (length (conversation_history s)))"
    using s' w' len full by (simp add: build_messages_def last_slice_def)
  then show ?thesis unfolding history_messages_concat[of ?h] by blast
qed

theorem context_window_bounded_witness:
  "execute_chat plain_oracles world_mentor state_mentor =
     (Inr (state_mentor\<lparr>profession_prompt := Some ''first'', response := ''Hello!'',
                         action := ''complete''\<rparr>),
      snd (execute_chat plain_oracles world_mentor state_mentor)) \<and>
   length (conversation_history state_mentor) = 12 \<and>
   last (llm_calls (snd (execute_chat plain_oracles world_mentor state_mentor))) =
     Generate [SystemMessage ''first'',
               HumanMessage ''q2'', AIMessage ''r2'', HumanMessage ''q3'', AIMessage ''r3'',
               HumanMessage ''q4'', AIMessage ''r4'', HumanMessage ''q5'', AIMessage ''r5'',
               HumanMessage ''q6'', AIMessage ''r6'',
               HumanMessage ''hi'']"
proof -
  let ?s' = "state_mentor\<lparr>profession_prompt := Some ''first'', response := ''Hello!'',
                         action := ''complete''\<rparr>"
  have e: "execute_chat plain_oracles world_mentor state_mentor =
     (Inr ?s', snd (execute_chat plain_oracles world_mentor state_mentor))"
    by code_simp
  have h: "conversation_history state_mentor = twelve_turns"
    by (simp add: state_mentor_def)
  have l: "length (conversation_history state_mentor) = 12"
    by (simp add: h twelve_turns_def)
  have a: "list_all (\<lambda>t. turn_role t = ''user'' \<or> turn_role t = ''assistant'')
             (conversation_history state_mentor)"
    by (simp add: h twelve_turns_def)
  have m: "message state_mentor = ''hi''"
    by (simp add: state_mentor_def initial_state_def request_u1_def)
  have d: "drop (length (conversation_history state_mentor) - 10)
             (conversation_history state_mentor) = drop 2 twelve_turns"
    using l by (simp add: h)
  from context_window_bounded[OF e] obtain prompt window where
    p: "profession_prompt ?s' = Some prompt" and
    c: "last (llm_calls (snd (execute_chat plain_oracles world_mentor state_mentor))) =
          Generate (SystemMessage prompt # window @ [HumanMessage (message state_mentor)])" and
    w: "window =
          concat (map (\<lambda>t. if turn_role t = ''user'' then [HumanMessage (turn_message t)]
                           else if turn_role t = ''assistant''
                           then [AIMessage (turn_message t)] else [])
            (drop (length (conversation_history state_mentor) - 10)
               (conversation_history state_mentor)))"
    by blast
  from p have p': "prompt = ''first''" by simp
  have w': "window =
      [HumanMessage ''q2'', AIMessage ''r2'', HumanMessage ''q3'', AIMessage ''r3'',
       HumanMessage ''q4'', AIMessage ''r4'', HumanMessage ''q5'', AIMessage ''r5'',
       HumanMessage ''q6'', AIMessage ''r6'']"
    unfolding w d by (simp add: twelve_turns_def)
  show ?thesis using e l c by (simp add: p' w' m)
qed

text \<open>
  C3, as amended. Take any outcome of \<^verbatim>\<open>POST /chat\<close>. When it is an error, the chat
  model was not called during the request. When it is a response, the last call of the
  request is the call of the chat model; if that call raises, the response is the apology
  followed by the text of the exception and the thread is left as it was (the turn of the
  user is not stored); if it returns, the response is the answer, and what is appended to
  the table of turns is the turn of the user and then the turn of the assistant, both under
  the label returned, each one when its insert goes through: the columns take the key and
  the label, the identity is stored and no fault hits the write. An insert that does not go
  through is dropped without a trace in the response.
\<close>

theorem generation_failure_saves_no_turn:
  assumes "chat env w request = (out, w')"
  shows "\<exists>cs. llm_calls w' = llm_calls w @ cs \<and>
           (case out of
              Inl e \<Rightarrow> \<forall>msgs. Generate msgs \<notin> set cs
            | Inr resp \<Rightarrow>
                \<exists>msgs. last cs = Generate msgs \<and>
                  (case chat_model env msgs of
                     Raises m \<Rightarrow>
                       resp_response resp = ''I apologize, but I encountered an error: '' @ m \<and>
                       conversations w' = conversations w
                   | Returns a \<Rightarrow>
                       resp_response resp = a \<and>
                       conversations w' = conversations w @
                         (case varchar 255 (req_user_id request) of
                            None \<Rightarrow> []
                          | Some key \<Rightarrow>
                              (case varchar 255 (resp_persona_name resp) of
                                 None \<Rightarrow> []
                               | Some label \<Rightarrow>
                                   if key \<in> set (users w') \<and>
                                      SaveMessage (req_user_id request) (resp_persona_name resp) ''user'' (req_message request)
                                        \<notin> set (write_faults w)
                                   then [\<lparr>conv_user_id = key, conv_persona_name = label,
                                           conv_role = ''user'', conv_message = req_message request\<rparr>]
                                   else [])) @
                         (case varchar 255 (req_user_id request) of
                            None \<Rightarrow> []
                          | Some key \<Rightarrow>
                              (case varchar 255 (resp_persona_name resp) of
                                 None \<Rightarrow> []
                               | Some label \<Rightarrow>
                                   if key \<in> set (users w') \<and>
                                      SaveMessage (req_user_id request) (resp_persona_name resp) ''assistant'' a
                                        \<notin> set (write_faults w)
                                   then [\<lparr>conv_user_id = key, conv_persona_name = label,
                                           conv_role = ''assistant'', conv_message = a\<rparr>]
                                   else []))))"
proof -
  from chat_any[OF assms] obtain cs where
    cs: "llm_calls w' = llm_calls w @ cs" and
    k: "(case out of
           Inl e \<Rightarrow> (\<forall>msgs. Generate msgs \<notin> set cs) \<and>
             (connect_error w = None \<longrightarrow>
                (\<exists>m. e = HTTPException 500 (Str (LLMError m)) \<or>
                     e = HTTPException 500 (Str (AttributeError m))))
         | Inr resp \<Rightarrow> (\<exists>pre msgs. cs = pre @ [Generate msgs]) \<and>
             resp_user_id resp = req_user_id request)"
    by blast
  show ?thesis
  proof (cases out)
    case (Inl e)
    with cs k show ?thesis by auto
  next
    case (Inr resp)
    from chat_success[OF assms[unfolded Inr]] obtain final where
      g: "graph_invoke env w (initial_state request) = (Inr final, w')" and
      r: "resp_response resp = response final" "resp_persona_name resp = current_persona final"
      by blast
    from pipeline_success[OF g] obtain w3 :: world and w4 :: world and prompt where
      l: "llm_calls w' = llm_calls w4 @
            [Generate (build_messages prompt (conversation_history final) (req_message request))]"
      and u: "users w' = users w3"
      and c: "(case chat_model env (build_messages prompt (conversation_history final)
                   (req_message request)) of
              Raises m \<Rightarrow> response final = apology m \<and> conversations w' = conversations w
            | Returns a \<Rightarrow>
                response final = a \<and>
                conversations w' = conversations w @
                  (case varchar 255 (req_user_id request) of
                     None \<Rightarrow> []
                   | Some key \<Rightarrow>
                       (case varchar 255 (current_persona final) of
                          None \<Rightarrow> []
                        | Some label \<Rightarrow>
                            if key \<in> set (users w3) \<and>
                               SaveMessage (req_user_id request) (current_persona final) ''user'' (req_message request)
                                 \<notin> set (write_faults w)
                            then [\<lparr>conv_user_id = key, conv_persona_name = label,
                                    conv_role = ''user'', conv_message = req_message request\<rparr>]
                            else [])) @
                  (case varchar 255 (req_user_id request) of
                     None \<Rightarrow> []
                   | Some key \<Rightarrow>
                       (case varchar 255 (current_persona final) of
                          None \<Rightarrow> []
                        | Some label \<Rightarrow>
                            if key \<in> set (users w3) \<and>
                               SaveMessage (req_user_id request) (current_persona final) ''assistant'' a
                                 \<notin> set (write_faults w)
                            then [\<lparr>conv_user_id = key, conv_persona_name = label,
                                    conv_role = ''assistant'', conv_message = a\<rparr>]
                            else [])))"
      by blast
    let ?msgs = "build_messages prompt (conversation_history final) (req_message request)"
    from k Inr obtain pre msgs where p: "cs = pre @ [Generate msgs]" by auto
    have "last (llm_calls w') = Generate ?msgs" by (simp add: l)
    moreover have "last (llm_calls w') = last cs" by (simp add: cs p)
    ultimately have lc: "last cs = Generate ?msgs" by simp
    have "(case chat_model env ?msgs of
             Raises m \<Rightarrow>
               resp_response resp = ''I apologize, but I encountered an error: '' @ m \<and>
               conversations w' = conversations w
           | Returns a \<Rightarrow>
               resp_response resp = a \<and>
               conversations w' = conversations w @
                 (case varchar 255 (req_user_id request) of
                    None \<Rightarrow> []
                  | Some key \<Rightarrow>
                      (case varchar 255 (resp_persona_name resp) of
                         None \<Rightarrow> []
                       | Some label \<Rightarrow>
                           if key \<in> set (users w') \<and>
                              SaveMessage (req_user_id request) (resp_persona_name resp) ''user'' (req_message request)
                                \<notin> set (write_faults w)
                           then [\<lparr>conv_user_id = key, conv_persona_name = label,
                                   conv_role = ''user'', conv_message = req_message request\<rparr>]
                           else [])) @
                 (case varchar 255 (req_user_id request) of
                    None \<Rightarrow> []
                  | Some key \<Rightarrow>
                      (case varchar 255 (resp_persona_name resp) of
                         None \<Rightarrow> []
                       | Some label \<Rightarrow>
                           if key \<in> set (users w') \<and>
                              SaveMessage (req_user_id request) (resp_persona_name resp) ''assistant'' a
                                \<notin> set (write_faults w)
                           then [\<lparr>conv_user_id = key, conv_persona_name = label,
                                   conv_role = ''assistant'', conv_message = a\<rparr>]
                           else [])))"
      using c unfolding r u[symmetric] by (simp add: apology_def split: reply.splits)
    with lc cs Inr show ?thesis by auto
  qed
qed

theorem generation_failure_saves_no_turn_witness:
  "chat (scripted (verdict True ''mentor'') (Returns ''p'') (Returns ''Hello!'')) world_u1
     (request_u1 None) =
     (Inr \<lparr>resp_response = ''Hello!'', resp_persona_name = ''mentor'', resp_user_id = ''u1''\<rparr>,
      snd (chat (scripted (verdict True ''mentor'') (Returns ''p'') (Returns ''Hello!''))
             world_u1 (request_u1 None))) \<and>
   conversations (snd (chat (scripted (verdict True ''mentor'') (Returns ''p'')
       (Returns ''Hello!'')) world_u1 (request_u1 None))) =
     [\<lparr>conv_user_id = ''u1'', conv_persona_name = ''mentor'',
       conv_role = ''user'', conv_message = ''hi''\<rparr>,
      \<lparr>conv_user_id = ''u1'', conv_persona_name = ''mentor'',
       conv_role = ''assistant'', conv_message = ''Hello!''\<rparr>] \<and>
   chat (scripted (verdict True ''mentor'') (Returns ''p'') (Returns ''Hello!'')) world_lossy
     (request_u1 None) =
     (Inr \<lparr>resp_response = ''Hello!'', resp_persona_name = ''mentor'', resp_user_id = ''u1''\<rparr>,
      snd (chat (scripted (verdict True ''mentor'') (Returns ''p'') (Returns ''Hello!''))
             world_lossy (request_u1 None))) \<and>
   conversations (snd (chat (scripted (verdict True ''mentor'') (Returns ''p'')
       (Returns ''Hello!'')) world_lossy (request_u1 None))) =
     [\<lparr>conv_user_id = ''u1'', conv_persona_name = ''mentor'',
       conv_role = ''assistant'', conv_message = ''Hello!''\<rparr>]"
proof -
  let ?env = "scripted (verdict True ''mentor'') (Returns ''p'') (Returns ''Hello!'')"
  let ?resp = "\<lparr>resp_response = ''Hello!'', resp_persona_name = ''mentor'',
                 resp_user_id = ''u1''\<rparr>"
  have e: "chat ?env world_u1 (request_u1 None) =
             (Inr ?resp, snd (chat ?env world_u1 (request_u1 None)))"
    by code_simp
  have e2: "chat ?env world_lossy (request_u1 None) =
             (Inr ?resp, snd (chat ?env world_lossy (request_u1 None)))"
    by code_simp
  have m: "\<And>msgs. chat_model ?env msgs = Returns ''Hello!''" by (simp add: scripted_def)
  have c: "conversations world_u1 = []" "write_faults world_u1 = []"
    "conversations world_lossy = []"
    "write_faults world_lossy = [SaveMessage ''u1'' ''mentor'' ''user'' ''hi'']"
    by (simp_all add: world_lossy_def world_u1_def empty_world_def)
  have r: "req_user_id (request_u1 None) = ''u1''" "req_message (request_u1 None) = ''hi''"
    by (simp_all add: request_u1_def)
  have u: "users (snd (chat ?env world_u1 (request_u1 None))) = [''u1'']"
    "users (snd (chat ?env world_lossy (request_u1 None))) = [''u1'']"
    by code_simp+
  have a: "conversations (snd (chat ?env world_u1 (request_u1 None))) =
     [\<lparr>conv_user_id = ''u1'', conv_persona_name = ''mentor'',
       conv_role = ''user'', conv_message = ''hi''\<rparr>,
      \<lparr>conv_user_id = ''u1'', conv_persona_name = ''mentor'',
       conv_role = ''assistant'', conv_message = ''Hello!''\<rparr>]"
    using generation_failure_saves_no_turn[OF e] by (auto simp: m c r u)
  have b: "conversations (snd (chat ?env world_lossy (request_u1 None))) =
     [\<lparr>conv_user_id = ''u1'', conv_persona_name = ''mentor'',
       conv_role = ''assistant'', conv_message = ''Hello!''\<rparr>]"
    using generation_failure_saves_no_turn[OF e2] by (auto simp: m c r u)
  from e e2 a b show ?thesis by simp
qed

text \<open>
  C3 as stated fails: the chat model raises \<open>timeout\<close>; the response is the apology, and
  the table of turns is still empty, so the turn of the user was not stored.
\<close>

theorem failed_generation_drops_user_turn:
  "chat (scripted (verdict True ''mentor'') (Returns ''p'') (Raises ''timeout'')) world_u1
          (request_u1 None) =
     (Inr \<lparr>resp_response = ''I apologize, but I encountered an error: timeout'',
           resp_persona_name = ''mentor'', resp_user_id = ''u1''\<rparr>,
      world_u1\<lparr>professions := [\<lparr>prof_user_id = ''u1'', prof_profession_name = ''mentor'',
                                 prof_prompt = ''p''\<rparr>],
               llm_calls := [Classify ''hi'' ''general_expert'', Synthesize ''mentor'',
                             Generate [SystemMessage ''p'', HumanMessage ''hi'']]\<rparr>) \<and>
   conversations (snd (chat (scripted (verdict True ''mentor'') (Returns ''p'')
      (Raises ''timeout'')) world_u1 (request_u1 None))) = []"
  by code_simp



text \<open>
  C8, as amended. Take a reachable database whose stored keys are distinct and fit their
  column. Whatever the first \<^verbatim>\<open>POST /chat\<close> for an identity answers, the
  identities change only when the key was absent and no fault hits the insert: then what
  the column takes of the key is appended, unless it is stored already. So a key of at most
  255 characters that no fault hits is stored after the call; a longer one is not: the
  column refuses it, or takes its first 255 characters when the rest are spaces. After a
  second call for the same identity the identities are still distinct, so no key is ever
  stored twice. When the identity is stored after the first call, the second call leaves
  the identities as they are, the key is stored exactly once, \<^verbatim>\<open>validate_user\<close>
  returns without touching the database and a direct \<^verbatim>\<open>create_user\<close> would answer
  \<open>False\<close> and change nothing. If the second call fails at all, it fails with the
  exception of a language model call.
\<close>

theorem identity_created_once:
  assumes "connect_error w = None" and "distinct (users w)"
      and "list_all (\<lambda>key. length key \<le> 255) (users w)"
      and "chat env1 w request1 = (out1, w1)"
      and "chat env2 w1 request2 = (out2, w2)"
      and "req_user_id request2 = req_user_id request1"
  shows "users w1 =
           (if req_user_id request1 \<in> set (users w) \<or>
               CreateUser (req_user_id request1) \<in> set (write_faults w)
            then users w
            else (case varchar 255 (req_user_id request1) of
                    None \<Rightarrow> users w
                  | Some key \<Rightarrow> if key \<in> set (users w) then users w else users w @ [key])) \<and>
         (length (req_user_id request1) \<le> 255 \<and>
          CreateUser (req_user_id request1) \<notin> set (write_faults w) \<longrightarrow>
            req_user_id request1 \<in> set (users w1)) \<and>
         distinct (users w2) \<and> count_list (users w2) (req_user_id request1) \<le> 1 \<and>
         (req_user_id request1 \<in> set (users w1) \<longrightarrow>
            users w2 = users w1 \<and> count_list (users w2) (req_user_id request1) = 1 \<and>
            (\<exists>s2. validate_user w1 (initialize_chat (initial_state request2)) = (Inr s2, w1) \<and>
                   st_user_exists s2) \<and>
            create_user w1 (req_user_id request1) = (False, w1)) \<and>
         (case out2 of
            Inl e \<Rightarrow> \<exists>m. e = HTTPException 500 (Str (LLMError m)) \<or>
                          e = HTTPException 500 (Str (AttributeError m))
          | Inr resp \<Rightarrow> resp_user_id resp = req_user_id request1)"
proof -
  let ?uid = "req_user_id request1"
  from chat_any[OF assms(4)] assms(1) have
    a1: "connect_error w1 = None" "write_faults w1 = write_faults w"
        "users w1 =
           (if req_user_id request1 \<in> set (users w) \<or>
               CreateUser (req_user_id request1) \<in> set (write_faults w)
            then users w
            else (case varchar 255 (req_user_id request1) of
                    None \<Rightarrow> users w
                  | Some key \<Rightarrow> if key \<in> set (users w) then users w else users w @ [key]))"
    by auto
  then have d1: "distinct (users w1)" using assms(2) by (auto split: option.splits)
  have fit: "length ?uid \<le> 255 \<and> CreateUser ?uid \<notin> set (write_faults w) \<longrightarrow>
      ?uid \<in> set (users w1)"
    using a1(3) by auto
  have a2: "users w2 =
           (if req_user_id request1 \<in> set (users w1) \<or>
               CreateUser (req_user_id request1) \<in> set (write_faults w1)
            then users w1
            else (case varchar 255 (req_user_id request1) of
                    None \<Rightarrow> users w1
                  | Some key \<Rightarrow> if key \<in> set (users w1) then users w1 else users w1 @ [key]))"
    using chat_any[OF assms(5)] a1(1) assms(6) by simp
  then have d2: "distinct (users w2)" using d1 by (auto split: option.splits)
  then have n2: "count_list (users w2) ?uid \<le> 1" by (simp add: count_list_distinct)
  have k: "(case out2 of
            Inl e \<Rightarrow> \<exists>m. e = HTTPException 500 (Str (LLMError m)) \<or>
                          e = HTTPException 500 (Str (AttributeError m))
          | Inr resp \<Rightarrow> resp_user_id resp = ?uid)"
    using chat_any[OF assms(5)] a1(1) assms(6) by (auto split: sum.splits)
  have u2: "user_id (initialize_chat (initial_state request2)) = ?uid"
    using initialize_chat_fields[of "initial_state request2"] initial_state_fields[of request2]
      assms(6) by simp
  have l1: "list_all (\<lambda>key. length key \<le> 255) (users w1)"
    using assms(3) by (auto simp: a1(3) dest: varchar_length split: option.splits)
  have s: "?uid \<in> set (users w1) \<longrightarrow>
            users w2 = users w1 \<and> count_list (users w2) ?uid = 1 \<and>
            (\<exists>s2. validate_user w1 (initialize_chat (initial_state request2)) = (Inr s2, w1) \<and>
                   st_user_exists s2) \<and>
            create_user w1 ?uid = (False, w1)"
  proof
    assume m1: "?uid \<in> set (users w1)"
    have e: "users w2 = users w1" using a2 m1 by simp
    have v: "\<exists>s2. validate_user w1 (initialize_chat (initial_state request2)) = (Inr s2, w1) \<and>
                st_user_exists s2"
      using a1(1) m1 u2 by (simp add: validate_user_def user_exists_def Let_def)
    have "length ?uid \<le> 255" using l1 m1 by (auto simp: list_all_iff)
    then have c: "create_user w1 ?uid = (False, w1)"
      using a1(1) m1 by (simp add: create_user_def)
    have n: "count_list (users w2) ?uid = 1"
      using d1 m1 e by (simp add: count_list_distinct)
    show "users w2 = users w1 \<and> count_list (users w2) ?uid = 1 \<and>
            (\<exists>s2. validate_user w1 (initialize_chat (initial_state request2)) = (Inr s2, w1) \<and>
                   st_user_exists s2) \<and>
            create_user w1 ?uid = (False, w1)"
      using e n v c by simp
  qed
  show ?thesis by (intro conjI) (rule a1(3) fit d2 n2 s k)+
qed

theorem identity_created_once_witness:
  "connect_error empty_world = None \<and> distinct (users empty_world) \<and>
   users (snd (chat plain_oracles empty_world (request_u1 None))) = [''u1''] \<and>
   users (snd (chat plain_oracles (snd (chat plain_oracles empty_world (request_u1 None)))
            (request_u1 (Some ''mentor'')))) = [''u1''] \<and>
   create_user (snd (chat plain_oracles empty_world (request_u1 None))) ''u1'' =
     (False, snd (chat plain_oracles empty_world (request_u1 None)))"
proof -
  let ?w1 = "snd (chat plain_oracles empty_world (request_u1 None))"
  have h1: "connect_error empty_world = None" and h2: "distinct (users empty_world)"
    and h2': "list_all (\<lambda>key. length key \<le> 255) (users empty_world)"
    by (simp_all add: empty_world_def)
  have h3: "chat plain_oracles empty_world (request_u1 None) =
      (fst (chat plain_oracles empty_world (request_u1 None)), ?w1)" by simp
  have h4: "chat plain_oracles ?w1 (request_u1 (Some ''mentor'')) =
      (fst (chat plain_oracles ?w1 (request_u1 (Some ''mentor''))),
       snd (chat plain_oracles ?w1 (request_u1 (Some ''mentor''))))" by simp
  have h5: "req_user_id (request_u1 (Some ''mentor'')) = req_user_id (request_u1 None)"
    by (simp add: request_u1_def)
  have u: "users empty_world = []" "write_faults empty_world = []"
    "req_user_id (request_u1 None) = ''u1''"
    by (simp_all add: empty_world_def request_u1_def)
  from identity_created_once[OF h1 h2 h2' h3 h4 h5] h1 h2 show ?thesis by (simp add: u)
qed

text \<open>
  C8 as stated fails: a key of 256 characters is absent; the call answers with a response,
  and the key is still not stored, after the first call and after the second.
\<close>

theorem long_key_never_stored:
  "length long_key = 256 \<and>
   fst (chat plain_oracles empty_world request_long) =
     Inr \<lparr>resp_response = ''Hello!'', resp_persona_name = ''general_expert'',
           resp_user_id = long_key\<rparr> \<and>
   users (snd (chat plain_oracles empty_world request_long)) = [] \<and>
   users (snd (chat plain_oracles (snd (chat plain_oracles empty_world request_long))
            request_long)) = []"
  by code_simp

end
